theory Spec2Isabelle
  imports Complex_Main
begin

section \<open>Data model (src/db/tables.ts)\<close>

text \<open>
  A TypeScript \<^verbatim>\<open>number\<close> that reaches a handler is a finite double; it is modelled by
  the rational it denotes (rounding of doubles is not modelled). A \<^verbatim>\<open>Date\<close> is its
  number of milliseconds since the epoch. An optional column, and an optional input field
  (\<^verbatim>\<open>undefined\<close> when omitted), is an \<open>option\<close>.
\<close>

type_synonym number = rat
type_synonym date = int

record schedule =
  s_id :: string
  s_ownerUserId :: string
  s_name :: string
  s_description :: "string option"
  s_baseTimeZone :: "string option"
  s_durationMinutes :: "number option"
  s_createdAt :: date
  s_updatedAt :: date

record participant =
  p_id :: string
  p_scheduleId :: string
  p_name :: string
  p_timeZone :: string
  p_availabilityJson :: "string option"
  p_createdAt :: date

record suggestion =
  g_id :: string
  g_scheduleId :: string
  g_suggestedStartUtc :: date
  g_suggestedEndUtc :: date
  g_participantsJson :: "string option"
  g_score :: "number option"
  g_notes :: "string option"
  g_createdAt :: date

text \<open>The store: the three tables, each the list of its rows in the store's row order.\<close>

record db =
  Schedules :: "schedule list"
  ScheduleParticipants :: "participant list"
  ScheduleSuggestions :: "suggestion list"

text \<open>
  Every table declares \<^verbatim>\<open>id: column.text({ primaryKey: true })\<close>: no two rows of a table
  share an id.
\<close>

definition primary_keys :: "db \<Rightarrow> bool" where
  "primary_keys d \<longleftrightarrow>
     distinct (map s_id (Schedules d)) \<and>
     distinct (map p_id (ScheduleParticipants d)) \<and>
     distinct (map g_id (ScheduleSuggestions d))"

section \<open>Errors, caller context, environment\<close>

datatype error_code = UNAUTHORIZED | NOT_FOUND

text \<open>
  \<open>ActionError\<close> is the error the handlers throw; \<open>ActionInputError\<close> is what
  \<^verbatim>\<open>defineAction\<close> raises when the input does not parse against the action's schema (the
  handler is not called); \<open>UniqueConstraintError\<close> is the store refusing an insert whose
  primary key is taken; \<open>TypeError\<close> is JavaScript's error for reading a property of
  \<^verbatim>\<open>undefined\<close>.
\<close>

datatype action_error =
    ActionError error_code string
  | ActionInputError
  | UniqueConstraintError
  | TypeError

record user =
  user_id :: string

record api_context =
  locals_user :: "user option"

text \<open>
  What a handler reads from outside the store: the value of \<^verbatim>\<open>crypto.randomUUID()\<close>, the
  value of the handler's own \<^verbatim>\<open>new Date()\<close>, and the value of the \<^verbatim>\<open>new Date()\<close> inside
  \<^verbatim>\<open>touchScheduleUpdatedAt\<close>.
\<close>

record env =
  randomUUID :: string
  new_Date :: date
  new_Date_touch :: date

section \<open>Store statements (astro:db)\<close>

definition db_select :: "('r \<Rightarrow> bool) \<Rightarrow> 'r list \<Rightarrow> 'r list" where
  "db_select wh rows = filter wh rows"

definition db_update :: "('r \<Rightarrow> 'r) \<Rightarrow> ('r \<Rightarrow> bool) \<Rightarrow> 'r list \<Rightarrow> 'r list" where
  "db_update st wh rows = map (\<lambda>r. if wh r then st r else r) rows"

definition db_delete :: "('r \<Rightarrow> bool) \<Rightarrow> 'r list \<Rightarrow> 'r list" where
  "db_delete wh rows = filter (\<lambda>r. \<not> wh r) rows"

definition db_insert :: "('r \<Rightarrow> string) \<Rightarrow> 'r \<Rightarrow> 'r list \<Rightarrow> action_error + 'r list" where
  "db_insert pk r rows =
     (if pk r \<in> set (map pk rows) then Inl UniqueConstraintError else Inr (rows @ [r]))"

text \<open>
  The object given to \<^verbatim>\<open>.set(...)\<close>: the query builder of astro:db (drizzle-orm) writes
  only the keys whose value is not \<^verbatim>\<open>undefined\<close>; a key whose value is \<^verbatim>\<open>undefined\<close> is
  left out of the UPDATE statement and the column keeps its stored value (a column is
  cleared by passing \<^verbatim>\<open>null\<close>, which no input schema of this program admits).
  \<open>set_optional v old\<close> is the column's value after \<^verbatim>\<open>.set({ col: v })\<close>.
\<close>

definition set_optional :: "'a option \<Rightarrow> 'a option \<Rightarrow> 'a option" where
  "set_optional v old = (case v of None \<Rightarrow> old | Some x \<Rightarrow> Some x)"

definition set_required :: "'a option \<Rightarrow> 'a \<Rightarrow> 'a" where
  "set_required v old = (case v of None \<Rightarrow> old | Some x \<Rightarrow> x)"

section \<open>Helpers of the action module\<close>

definition requireUser :: "api_context \<Rightarrow> action_error + user" where
  "requireUser ctx =
     (case locals_user ctx of
        None \<Rightarrow> Inl (ActionError UNAUTHORIZED ''You must be signed in to perform this action.'')
      | Some u \<Rightarrow> Inr u)"

definition getOwnedSchedule :: "string \<Rightarrow> string \<Rightarrow> db \<Rightarrow> action_error + schedule" where
  "getOwnedSchedule scheduleId userId d =
     (case db_select (\<lambda>s. s_id s = scheduleId \<and> s_ownerUserId s = userId) (Schedules d) of
        [] \<Rightarrow> Inl (ActionError NOT_FOUND ''Schedule not found.'')
      | sch # _ \<Rightarrow> Inr sch)"

definition touchScheduleUpdatedAt :: "string \<Rightarrow> date \<Rightarrow> db \<Rightarrow> db" where
  "touchScheduleUpdatedAt scheduleId now d =
     d\<lparr>Schedules :=
         db_update (\<lambda>s. s\<lparr>s_updatedAt := now\<rparr>) (\<lambda>s. s_id s = scheduleId) (Schedules d)\<rparr>"

text \<open>Zod's checks: \<^verbatim>\<open>.min(1)\<close> on a string, \<^verbatim>\<open>.int()\<close>, \<^verbatim>\<open>.optional()\<close>.\<close>

definition min1 :: "string \<Rightarrow> bool" where
  "min1 s \<longleftrightarrow> 1 \<le> length s"

definition isInteger :: "number \<Rightarrow> bool" where
  "isInteger x \<longleftrightarrow> of_int \<lfloor>x\<rfloor> = x"

definition optional :: "('a \<Rightarrow> bool) \<Rightarrow> 'a option \<Rightarrow> bool" where
  "optional chk v = (case v of None \<Rightarrow> True | Some x \<Rightarrow> chk x)"

definition int_positive :: "number \<Rightarrow> bool" where
  "int_positive x \<longleftrightarrow> isInteger x \<and> 0 < x"


text \<open>
  \<^verbatim>\<open>defineAction({ input, handler })\<close>: the raw input is parsed against the schema first;
  when it does not parse the action fails with \<open>ActionInputError\<close> and the handler is
  never called, otherwise the handler runs on the parsed input. A handler returns its
  result, or the error it threw, together with the store as it has left it: nothing
  is rolled back.
\<close>

type_synonym ('i, 'a) handler = "'i \<Rightarrow> api_context \<Rightarrow> env \<Rightarrow> db \<Rightarrow> (action_error + 'a) \<times> db"

definition defineAction :: "('r \<Rightarrow> 'i option) \<Rightarrow> ('i, 'a) handler \<Rightarrow> ('r, 'a) handler" where
  "defineAction schema handler raw ctx e d =
     (case schema raw of
        None \<Rightarrow> (Inl ActionInputError, d)
      | Some input \<Rightarrow> handler input ctx e d)"

definition z_object :: "('i \<Rightarrow> bool) \<Rightarrow> 'i \<Rightarrow> 'i option" where
  "z_object chk raw = (if chk raw then Some raw else None)"

definition first_row :: "'r list \<Rightarrow> 'r option" where
  "first_row rows = (case rows of [] \<Rightarrow> None | r # _ \<Rightarrow> Some r)"

section \<open>Schedule actions\<close>

subsection \<open>createSchedule\<close>

record createSchedule_input =
  cs_name :: string
  cs_description :: "string option"
  cs_baseTimeZone :: "string option"
  cs_durationMinutes :: "number option"

definition createSchedule_schema :: "createSchedule_input \<Rightarrow> bool" where
  "createSchedule_schema i \<longleftrightarrow>
     min1 (cs_name i) \<and>
     optional min1 (cs_baseTimeZone i) \<and>
     optional int_positive (cs_durationMinutes i)"

definition createSchedule_handler :: "(createSchedule_input, schedule) handler" where
  "createSchedule_handler input ctx e d =
     (case requireUser ctx of
        Inl err \<Rightarrow> (Inl err, d)
      | Inr usr \<Rightarrow>
          let now = new_Date e;
              sch = \<lparr>s_id = randomUUID e,
                     s_ownerUserId = user_id usr,
                     s_name = cs_name input,
                     s_description = cs_description input,
                     s_baseTimeZone = cs_baseTimeZone input,
                     s_durationMinutes = cs_durationMinutes input,
                     s_createdAt = now,
                     s_updatedAt = now\<rparr>
          in (case db_insert s_id sch (Schedules d) of
                Inl err \<Rightarrow> (Inl err, d)
              | Inr rows \<Rightarrow> (Inr sch, d\<lparr>Schedules := rows\<rparr>)))"

definition createSchedule :: "(createSchedule_input, schedule) handler" where
  "createSchedule = defineAction (z_object createSchedule_schema) createSchedule_handler"

subsection \<open>updateSchedule\<close>

record updateSchedule_input =
  us_id :: string
  us_name :: "string option"
  us_description :: "string option"
  us_baseTimeZone :: "string option"
  us_durationMinutes :: "number option"

definition updateSchedule_schema :: "updateSchedule_input \<Rightarrow> bool" where
  "updateSchedule_schema i \<longleftrightarrow>
     min1 (us_id i) \<and>
     optional min1 (us_name i) \<and>
     optional min1 (us_baseTimeZone i) \<and>
     optional int_positive (us_durationMinutes i) \<and>
     (us_name i \<noteq> None \<or> us_description i \<noteq> None \<or>
      us_baseTimeZone i \<noteq> None \<or> us_durationMinutes i \<noteq> None)"

text \<open>
  \<open>updateData\<close> as a row transformer: \<^verbatim>\<open>updatedAt\<close> is always a key of it, each of the
  four other keys only when the input gives the field.
\<close>

definition updateData :: "updateSchedule_input \<Rightarrow> date \<Rightarrow> schedule \<Rightarrow> schedule" where
  "updateData input now s =
     s\<lparr>s_updatedAt := now,
       s_name := set_required (us_name input) (s_name s),
       s_description := set_optional (us_description input) (s_description s),
       s_baseTimeZone := set_optional (us_baseTimeZone input) (s_baseTimeZone s),
       s_durationMinutes := set_optional (us_durationMinutes input) (s_durationMinutes s)\<rparr>"

definition updateSchedule_handler :: "(updateSchedule_input, schedule option) handler" where
  "updateSchedule_handler input ctx e d =
     (case requireUser ctx of
        Inl err \<Rightarrow> (Inl err, d)
      | Inr usr \<Rightarrow>
          (case getOwnedSchedule (us_id input) (user_id usr) d of
             Inl err \<Rightarrow> (Inl err, d)
           | Inr _ \<Rightarrow>
               let d1 = d\<lparr>Schedules :=
                          db_update (updateData input (new_Date e))
                            (\<lambda>s. s_id s = us_id input \<and> s_ownerUserId s = user_id usr)
                            (Schedules d)\<rparr>;
                   updated =
                     db_select (\<lambda>s. s_id s = us_id input \<and> s_ownerUserId s = user_id usr)
                       (Schedules d1)
               in (Inr (first_row updated), d1)))"

definition updateSchedule :: "(updateSchedule_input, schedule option) handler" where
  "updateSchedule = defineAction (z_object updateSchedule_schema) updateSchedule_handler"

subsection \<open>deleteSchedule\<close>

record deleteSchedule_input =
  ds_id :: string

definition deleteSchedule_schema :: "deleteSchedule_input \<Rightarrow> bool" where
  "deleteSchedule_schema i \<longleftrightarrow> min1 (ds_id i)"

text \<open>
  The three delete statements of the handler, in program order: the list holds the
  store after the first, after the second and after the third statement.
\<close>

definition deleteSchedule_statements :: "string \<Rightarrow> string \<Rightarrow> db \<Rightarrow> db list" where
  "deleteSchedule_statements scheduleId userId d =
     (let d1 = d\<lparr>ScheduleSuggestions :=
                  db_delete (\<lambda>g. g_scheduleId g = scheduleId) (ScheduleSuggestions d)\<rparr>;
          d2 = d1\<lparr>ScheduleParticipants :=
                   db_delete (\<lambda>p. p_scheduleId p = scheduleId) (ScheduleParticipants d1)\<rparr>;
          d3 = d2\<lparr>Schedules :=
                   db_delete (\<lambda>s. s_id s = scheduleId \<and> s_ownerUserId s = userId)
                     (Schedules d2)\<rparr>
      in [d1, d2, d3])"

definition deleteSchedule_handler :: "(deleteSchedule_input, unit) handler" where
  "deleteSchedule_handler input ctx e d =
     (case requireUser ctx of
        Inl err \<Rightarrow> (Inl err, d)
      | Inr usr \<Rightarrow>
          (case getOwnedSchedule (ds_id input) (user_id usr) d of
             Inl err \<Rightarrow> (Inl err, d)
           | Inr _ \<Rightarrow>
               (Inr (), last (deleteSchedule_statements (ds_id input) (user_id usr) d))))"

definition deleteSchedule :: "(deleteSchedule_input, unit) handler" where
  "deleteSchedule = defineAction (z_object deleteSchedule_schema) deleteSchedule_handler"

subsection \<open>getScheduleWithDetails\<close>

record getScheduleWithDetails_input =
  gd_id :: string

definition getScheduleWithDetails_schema :: "getScheduleWithDetails_input \<Rightarrow> bool" where
  "getScheduleWithDetails_schema i \<longleftrightarrow> min1 (gd_id i)"

definition getScheduleWithDetails_handler ::
  "(getScheduleWithDetails_input, schedule \<times> participant list \<times> suggestion list) handler" where
  "getScheduleWithDetails_handler input ctx e d =
     (case requireUser ctx of
        Inl err \<Rightarrow> (Inl err, d)
      | Inr usr \<Rightarrow>
          (case getOwnedSchedule (gd_id input) (user_id usr) d of
             Inl err \<Rightarrow> (Inl err, d)
           | Inr sch \<Rightarrow>
               let participants =
                     db_select (\<lambda>p. p_scheduleId p = s_id sch) (ScheduleParticipants d);
                   suggestions =
                     db_select (\<lambda>g. g_scheduleId g = s_id sch) (ScheduleSuggestions d)
               in (Inr (sch, participants, suggestions), d)))"

definition getScheduleWithDetails ::
  "(getScheduleWithDetails_input, schedule \<times> participant list \<times> suggestion list) handler" where
  "getScheduleWithDetails =
     defineAction (z_object getScheduleWithDetails_schema) getScheduleWithDetails_handler"

subsection \<open>listMySchedules\<close>

record listMySchedules_raw =
  lm_page :: "number option"
  lm_pageSize :: "number option"

record listMySchedules_input =
  page :: number
  pageSize :: number

definition z_default :: "'a \<Rightarrow> 'a option \<Rightarrow> 'a" where
  "z_default dflt v = (case v of None \<Rightarrow> dflt | Some x \<Rightarrow> x)"

definition listMySchedules_schema :: "listMySchedules_raw \<Rightarrow> listMySchedules_input option" where
  "listMySchedules_schema raw =
     (let p = z_default 1 (lm_page raw);
          ps = z_default 20 (lm_pageSize raw)
      in if int_positive p \<and> int_positive ps \<and> ps \<le> 100
         then Some \<lparr>page = p, pageSize = ps\<rparr>
         else None)"

record schedule_page =
  items :: "schedule list"
  total :: number
  echo_page :: number
  echo_pageSize :: number

text \<open>
  \<^verbatim>\<open>db.fn\<close>. The client \<^verbatim>\<open>db\<close> that astro:db exports is a drizzle-orm database object:
  its members are the statement builders (\<^verbatim>\<open>select\<close>, \<^verbatim>\<open>insert\<close>, \<^verbatim>\<open>update\<close>,
  \<^verbatim>\<open>delete\<close>, ...). It has no member \<^verbatim>\<open>fn\<close>: the count aggregate of astro:db is the
  module's function \<^verbatim>\<open>count\<close>, which the action module does not import. So \<^verbatim>\<open>db.fn\<close> is
  \<^verbatim>\<open>undefined\<close>, here \<open>None\<close>, and \<^verbatim>\<open>db.fn.count()\<close> throws a TypeError while the
  argument of the second \<^verbatim>\<open>select\<close> is evaluated.
\<close>

definition db_fn :: "(schedule list \<Rightarrow> number) option" where
  "db_fn = None"

text \<open>
  The handler, with the value of the expression \<^verbatim>\<open>db.fn\<close> as its first argument; the
  handler of the action is this body at what the client provides.
\<close>

definition listMySchedules_body ::
  "(schedule list \<Rightarrow> number) option \<Rightarrow> (listMySchedules_input, schedule_page) handler" where
  "listMySchedules_body fn input ctx e d =
     (case requireUser ctx of
        Inl err \<Rightarrow> (Inl err, d)
      | Inr usr \<Rightarrow>
          let offset = (page input - 1) * pageSize input;
              its = take (nat \<lfloor>pageSize input\<rfloor>)
                      (drop (nat \<lfloor>offset\<rfloor>)
                         (db_select (\<lambda>s. s_ownerUserId s = user_id usr) (Schedules d)))
          in (case fn of
                None \<Rightarrow> (Inl TypeError, d)
              | Some fn_count \<Rightarrow>
                  let tot = fn_count (db_select (\<lambda>s. s_ownerUserId s = user_id usr) (Schedules d))
                  in (Inr \<lparr>items = its, total = tot,
                           echo_page = page input, echo_pageSize = pageSize input\<rparr>, d)))"

definition listMySchedules_handler :: "(listMySchedules_input, schedule_page) handler" where
  "listMySchedules_handler = listMySchedules_body db_fn"

definition listMySchedules :: "(listMySchedules_raw, schedule_page) handler" where
  "listMySchedules = defineAction listMySchedules_schema listMySchedules_handler"

section \<open>Participant actions\<close>

text \<open>
  \<^verbatim>\<open>if (input.id)\<close> tests a value of type \<^verbatim>\<open>string | undefined\<close>: \<^verbatim>\<open>undefined\<close> and the
  empty string are falsy, every other string is truthy. \<open>truthy v\<close> is the string the
  then-branch sees, or \<open>None\<close> when the else-branch is taken.
\<close>

definition truthy :: "string option \<Rightarrow> string option" where
  "truthy v = (case v of None \<Rightarrow> None | Some s \<Rightarrow> if s = [] then None else Some s)"

record upsertParticipant_input =
  up_id :: "string option"
  up_scheduleId :: string
  up_name :: string
  up_timeZone :: string
  up_availabilityJson :: "string option"

definition upsertParticipant_schema :: "upsertParticipant_input \<Rightarrow> bool" where
  "upsertParticipant_schema i \<longleftrightarrow>
     min1 (up_scheduleId i) \<and> min1 (up_name i) \<and> min1 (up_timeZone i)"

definition participant_set :: "upsertParticipant_input \<Rightarrow> participant \<Rightarrow> participant" where
  "participant_set input p =
     p\<lparr>p_name := up_name input,
       p_timeZone := up_timeZone input,
       p_availabilityJson := set_optional (up_availabilityJson input) (p_availabilityJson p)\<rparr>"

definition participant_values :: "upsertParticipant_input \<Rightarrow> env \<Rightarrow> participant" where
  "participant_values input e =
     \<lparr>p_id = randomUUID e,
      p_scheduleId = up_scheduleId input,
      p_name = up_name input,
      p_timeZone = up_timeZone input,
      p_availabilityJson = up_availabilityJson input,
      p_createdAt = new_Date e\<rparr>"

text \<open>The \<^verbatim>\<open>if (input.id) { ... } else { ... }\<close> statement of the handler.\<close>

definition upsertParticipant_write :: "upsertParticipant_input \<Rightarrow> env \<Rightarrow> db \<Rightarrow> action_error + db" where
  "upsertParticipant_write input e d =
     (case truthy (up_id input) of
        Some i \<Rightarrow>
          let existing =
                db_select (\<lambda>p. p_id p = i \<and> p_scheduleId p = up_scheduleId input)
                  (ScheduleParticipants d)
          in (case first_row existing of
                None \<Rightarrow> Inl (ActionError NOT_FOUND ''Participant not found for this schedule.'')
              | Some _ \<Rightarrow>
                  Inr (d\<lparr>ScheduleParticipants :=
                           db_update (participant_set input)
                             (\<lambda>p. p_id p = i \<and> p_scheduleId p = up_scheduleId input)
                             (ScheduleParticipants d)\<rparr>))
      | None \<Rightarrow>
          (case db_insert p_id (participant_values input e) (ScheduleParticipants d) of
             Inl err \<Rightarrow> Inl err
           | Inr rows \<Rightarrow> Inr (d\<lparr>ScheduleParticipants := rows\<rparr>)))"

definition upsertParticipant_handler :: "(upsertParticipant_input, participant list) handler" where
  "upsertParticipant_handler input ctx e d =
     (case requireUser ctx of
        Inl err \<Rightarrow> (Inl err, d)
      | Inr usr \<Rightarrow>
          (case getOwnedSchedule (up_scheduleId input) (user_id usr) d of
             Inl err \<Rightarrow> (Inl err, d)
           | Inr _ \<Rightarrow>
               (case upsertParticipant_write input e d of
                  Inl err \<Rightarrow> (Inl err, d)
                | Inr d1 \<Rightarrow>
                    let d2 = touchScheduleUpdatedAt (up_scheduleId input) (new_Date_touch e) d1;
                        participants =
                          db_select (\<lambda>p. p_scheduleId p = up_scheduleId input)
                            (ScheduleParticipants d2)
                    in (Inr participants, d2))))"

definition upsertParticipant :: "(upsertParticipant_input, participant list) handler" where
  "upsertParticipant = defineAction (z_object upsertParticipant_schema) upsertParticipant_handler"

record deleteParticipant_input =
  dp_scheduleId :: string
  dp_participantId :: string

definition deleteParticipant_schema :: "deleteParticipant_input \<Rightarrow> bool" where
  "deleteParticipant_schema i \<longleftrightarrow> min1 (dp_scheduleId i) \<and> min1 (dp_participantId i)"

definition deleteParticipant_handler :: "(deleteParticipant_input, unit) handler" where
  "deleteParticipant_handler input ctx e d =
     (case requireUser ctx of
        Inl err \<Rightarrow> (Inl err, d)
      | Inr usr \<Rightarrow>
          (case getOwnedSchedule (dp_scheduleId input) (user_id usr) d of
             Inl err \<Rightarrow> (Inl err, d)
           | Inr _ \<Rightarrow>
               let found =
                     db_select
                       (\<lambda>p. p_id p = dp_participantId input \<and> p_scheduleId p = dp_scheduleId input)
                       (ScheduleParticipants d)
               in (case first_row found of
                     None \<Rightarrow>
                       (Inl (ActionError NOT_FOUND ''Participant not found for this schedule.''), d)
                   | Some _ \<Rightarrow>
                       let d1 = d\<lparr>ScheduleParticipants :=
                                  db_delete
                                    (\<lambda>p. p_id p = dp_participantId input \<and>
                                         p_scheduleId p = dp_scheduleId input)
                                    (ScheduleParticipants d)\<rparr>;
                           d2 = touchScheduleUpdatedAt (dp_scheduleId input) (new_Date_touch e) d1
                       in (Inr (), d2))))"

definition deleteParticipant :: "(deleteParticipant_input, unit) handler" where
  "deleteParticipant = defineAction (z_object deleteParticipant_schema) deleteParticipant_handler"

section \<open>Suggestion actions\<close>

text \<open>
  \<^verbatim>\<open>z.coerce.date()\<close> yields a valid \<^verbatim>\<open>Date\<close> or fails the parse; the two date fields
  below are the coerced dates. \<^verbatim>\<open><\<close> on two dates compares their millisecond values.
\<close>

record upsertSuggestion_input =
  ug_id :: "string option"
  ug_scheduleId :: string
  ug_suggestedStartUtc :: date
  ug_suggestedEndUtc :: date
  ug_participantsJson :: "string option"
  ug_score :: "number option"
  ug_notes :: "string option"

definition score_ok :: "number \<Rightarrow> bool" where
  "score_ok x \<longleftrightarrow> isInteger x \<and> 0 \<le> x \<and> x \<le> 100"

definition upsertSuggestion_schema :: "upsertSuggestion_input \<Rightarrow> bool" where
  "upsertSuggestion_schema i \<longleftrightarrow>
     min1 (ug_scheduleId i) \<and>
     optional score_ok (ug_score i) \<and>
     ug_suggestedStartUtc i < ug_suggestedEndUtc i"

definition suggestion_set :: "upsertSuggestion_input \<Rightarrow> suggestion \<Rightarrow> suggestion" where
  "suggestion_set input g =
     g\<lparr>g_suggestedStartUtc := ug_suggestedStartUtc input,
       g_suggestedEndUtc := ug_suggestedEndUtc input,
       g_participantsJson := set_optional (ug_participantsJson input) (g_participantsJson g),
       g_score := set_optional (ug_score input) (g_score g),
       g_notes := set_optional (ug_notes input) (g_notes g)\<rparr>"

definition suggestion_values :: "upsertSuggestion_input \<Rightarrow> env \<Rightarrow> suggestion" where
  "suggestion_values input e =
     \<lparr>g_id = randomUUID e,
      g_scheduleId = ug_scheduleId input,
      g_suggestedStartUtc = ug_suggestedStartUtc input,
      g_suggestedEndUtc = ug_suggestedEndUtc input,
      g_participantsJson = ug_participantsJson input,
      g_score = ug_score input,
      g_notes = ug_notes input,
      g_createdAt = new_Date e\<rparr>"

definition upsertSuggestion_write :: "upsertSuggestion_input \<Rightarrow> env \<Rightarrow> db \<Rightarrow> action_error + db" where
  "upsertSuggestion_write input e d =
     (case truthy (ug_id input) of
        Some i \<Rightarrow>
          let existing =
                db_select (\<lambda>g. g_id g = i \<and> g_scheduleId g = ug_scheduleId input)
                  (ScheduleSuggestions d)
          in (case first_row existing of
                None \<Rightarrow> Inl (ActionError NOT_FOUND ''Suggestion not found for this schedule.'')
              | Some _ \<Rightarrow>
                  Inr (d\<lparr>ScheduleSuggestions :=
                           db_update (suggestion_set input)
                             (\<lambda>g. g_id g = i \<and> g_scheduleId g = ug_scheduleId input)
                             (ScheduleSuggestions d)\<rparr>))
      | None \<Rightarrow>
          (case db_insert g_id (suggestion_values input e) (ScheduleSuggestions d) of
             Inl err \<Rightarrow> Inl err
           | Inr rows \<Rightarrow> Inr (d\<lparr>ScheduleSuggestions := rows\<rparr>)))"

definition upsertSuggestion_handler :: "(upsertSuggestion_input, suggestion list) handler" where
  "upsertSuggestion_handler input ctx e d =
     (case requireUser ctx of
        Inl err \<Rightarrow> (Inl err, d)
      | Inr usr \<Rightarrow>
          (case getOwnedSchedule (ug_scheduleId input) (user_id usr) d of
             Inl err \<Rightarrow> (Inl err, d)
           | Inr _ \<Rightarrow>
               (case upsertSuggestion_write input e d of
                  Inl err \<Rightarrow> (Inl err, d)
                | Inr d1 \<Rightarrow>
                    let d2 = touchScheduleUpdatedAt (ug_scheduleId input) (new_Date_touch e) d1;
                        suggestions =
                          db_select (\<lambda>g. g_scheduleId g = ug_scheduleId input)
                            (ScheduleSuggestions d2)
                    in (Inr suggestions, d2))))"

definition upsertSuggestion :: "(upsertSuggestion_input, suggestion list) handler" where
  "upsertSuggestion = defineAction (z_object upsertSuggestion_schema) upsertSuggestion_handler"

record deleteSuggestion_input =
  dg_scheduleId :: string
  dg_suggestionId :: string

definition deleteSuggestion_schema :: "deleteSuggestion_input \<Rightarrow> bool" where
  "deleteSuggestion_schema i \<longleftrightarrow> min1 (dg_scheduleId i) \<and> min1 (dg_suggestionId i)"

definition deleteSuggestion_handler :: "(deleteSuggestion_input, unit) handler" where
  "deleteSuggestion_handler input ctx e d =
     (case requireUser ctx of
        Inl err \<Rightarrow> (Inl err, d)
      | Inr usr \<Rightarrow>
          (case getOwnedSchedule (dg_scheduleId input) (user_id usr) d of
             Inl err \<Rightarrow> (Inl err, d)
           | Inr _ \<Rightarrow>
               let found =
                     db_select
                       (\<lambda>g. g_id g = dg_suggestionId input \<and> g_scheduleId g = dg_scheduleId input)
                       (ScheduleSuggestions d)
               in (case first_row found of
                     None \<Rightarrow>
                       (Inl (ActionError NOT_FOUND ''Suggestion not found for this schedule.''), d)
                   | Some _ \<Rightarrow>
                       let d1 = d\<lparr>ScheduleSuggestions :=
                                  db_delete
                                    (\<lambda>g. g_id g = dg_suggestionId input \<and>
                                         g_scheduleId g = dg_scheduleId input)
                                    (ScheduleSuggestions d)\<rparr>;
                           d2 = touchScheduleUpdatedAt (dg_scheduleId input) (new_Date_touch e) d1
                       in (Inr (), d2))))"

definition deleteSuggestion :: "(deleteSuggestion_input, unit) handler" where
  "deleteSuggestion = defineAction (z_object deleteSuggestion_schema) deleteSuggestion_handler"

section \<open>Example store\<close>

text \<open>
  Two users, a schedule each, one participant and one suggestion under each schedule.
\<close>

definition alice_schedule :: schedule where
  "alice_schedule =
     \<lparr>s_id = ''s1'', s_ownerUserId = ''alice'', s_name = ''Team sync'',
      s_description = None, s_baseTimeZone = Some ''Asia/Dubai'', s_durationMinutes = None,
      s_createdAt = 1000, s_updatedAt = 1000\<rparr>"

definition bob_schedule :: schedule where
  "bob_schedule =
     \<lparr>s_id = ''s2'', s_ownerUserId = ''bob'', s_name = ''Client meeting'',
      s_description = Some ''weekly'', s_baseTimeZone = None, s_durationMinutes = Some 30,
      s_createdAt = 1500, s_updatedAt = 1500\<rparr>"

definition karthik :: participant where
  "karthik =
     \<lparr>p_id = ''p1'', p_scheduleId = ''s1'', p_name = ''Karthik'', p_timeZone = ''Asia/Dubai'',
      p_availabilityJson = Some ''{}'', p_createdAt = 1100\<rparr>"

definition astra :: participant where
  "astra =
     \<lparr>p_id = ''p2'', p_scheduleId = ''s2'', p_name = ''Astra'', p_timeZone = ''America/New_York'',
      p_availabilityJson = None, p_createdAt = 1600\<rparr>"

definition window1 :: suggestion where
  "window1 =
     \<lparr>g_id = ''g1'', g_scheduleId = ''s1'', g_suggestedStartUtc = 5000, g_suggestedEndUtc = 6000,
      g_participantsJson = Some ''[]'', g_score = Some 50, g_notes = Some ''ok'',
      g_createdAt = 1200\<rparr>"

definition window2 :: suggestion where
  "window2 =
     \<lparr>g_id = ''g2'', g_scheduleId = ''s2'', g_suggestedStartUtc = 7000, g_suggestedEndUtc = 8000,
      g_participantsJson = None, g_score = None, g_notes = None, g_createdAt = 1700\<rparr>"

definition db0 :: db where
  "db0 = \<lparr>Schedules = [alice_schedule, bob_schedule],
          ScheduleParticipants = [karthik, astra],
          ScheduleSuggestions = [window1, window2]\<rparr>"

definition signed_in :: "string \<Rightarrow> api_context" where
  "signed_in uid = \<lparr>locals_user = Some \<lparr>user_id = uid\<rparr>\<rparr>"

definition env0 :: env where
  "env0 = \<lparr>randomUUID = ''u1'', new_Date = 2000, new_Date_touch = 2001\<rparr>"

abbreviation (input) schedule_not_found :: action_error where
  "schedule_not_found \<equiv> ActionError NOT_FOUND ''Schedule not found.''"

lemmas example_defs =
  alice_schedule_def bob_schedule_def karthik_def astra_def window1_def window2_def
  db0_def signed_in_def env0_def


section \<open>The ownership guard\<close>

lemma getOwnedSchedule_none:
  "\<forall>s \<in> set (Schedules d). \<not> (s_id s = sid \<and> s_ownerUserId s = uid) \<Longrightarrow>
   getOwnedSchedule sid uid d = Inl schedule_not_found"
  by (simp add: getOwnedSchedule_def db_select_def filter_empty_conv
      split: list.splits)

lemma getOwnedSchedule_found:
  "getOwnedSchedule sid uid d = Inr s \<Longrightarrow>
   s \<in> set (Schedules d) \<and> s_id s = sid \<and> s_ownerUserId s = uid"
proof -
  assume a: "getOwnedSchedule sid uid d = Inr s"
  then obtain rest where
    "filter (\<lambda>s. s_id s = sid \<and> s_ownerUserId s = uid) (Schedules d) = s # rest"
    by (auto simp: getOwnedSchedule_def db_select_def split: list.splits)
  then have "s \<in> set (filter (\<lambda>s. s_id s = sid \<and> s_ownerUserId s = uid) (Schedules d))"
    by simp
  then show ?thesis by simp
qed

lemma schedule_pk_unique:
  "primary_keys d \<Longrightarrow> s \<in> set (Schedules d) \<Longrightarrow> s' \<in> set (Schedules d) \<Longrightarrow>
   s_id s = s_id s' \<Longrightarrow> s = s'"
  by (auto simp: primary_keys_def distinct_map dest: inj_onD)

lemma getOwnedSchedule_foreign:
  assumes "primary_keys d" "s \<in> set (Schedules d)" "s_ownerUserId s \<noteq> uid"
  shows "getOwnedSchedule (s_id s) uid d = Inl schedule_not_found"
proof (rule getOwnedSchedule_none, rule ballI)
  fix s' assume "s' \<in> set (Schedules d)"
  with assms show "\<not> (s_id s' = s_id s \<and> s_ownerUserId s' = uid)"
    using schedule_pk_unique by blast
qed

lemma guard_updateSchedule:
  "locals_user ctx = Some b \<Longrightarrow> getOwnedSchedule (us_id i) (user_id b) d = Inl err \<Longrightarrow>
   updateSchedule_schema i \<Longrightarrow> updateSchedule i ctx e d = (Inl err, d)"
  by (simp add: updateSchedule_def defineAction_def z_object_def updateSchedule_handler_def
      requireUser_def)

lemma guard_deleteSchedule:
  "locals_user ctx = Some b \<Longrightarrow> getOwnedSchedule (ds_id i) (user_id b) d = Inl err \<Longrightarrow>
   deleteSchedule_schema i \<Longrightarrow> deleteSchedule i ctx e d = (Inl err, d)"
  by (simp add: deleteSchedule_def defineAction_def z_object_def deleteSchedule_handler_def
      requireUser_def)

lemma guard_getScheduleWithDetails:
  "locals_user ctx = Some b \<Longrightarrow> getOwnedSchedule (gd_id i) (user_id b) d = Inl err \<Longrightarrow>
   getScheduleWithDetails_schema i \<Longrightarrow> getScheduleWithDetails i ctx e d = (Inl err, d)"
  by (simp add: getScheduleWithDetails_def defineAction_def z_object_def
      getScheduleWithDetails_handler_def requireUser_def)

lemma guard_upsertParticipant:
  "locals_user ctx = Some b \<Longrightarrow> getOwnedSchedule (up_scheduleId i) (user_id b) d = Inl err \<Longrightarrow>
   upsertParticipant_schema i \<Longrightarrow> upsertParticipant i ctx e d = (Inl err, d)"
  by (simp add: upsertParticipant_def defineAction_def z_object_def
      upsertParticipant_handler_def requireUser_def)

lemma guard_deleteParticipant:
  "locals_user ctx = Some b \<Longrightarrow> getOwnedSchedule (dp_scheduleId i) (user_id b) d = Inl err \<Longrightarrow>
   deleteParticipant_schema i \<Longrightarrow> deleteParticipant i ctx e d = (Inl err, d)"
  by (simp add: deleteParticipant_def defineAction_def z_object_def
      deleteParticipant_handler_def requireUser_def)

lemma guard_upsertSuggestion:
  "locals_user ctx = Some b \<Longrightarrow> getOwnedSchedule (ug_scheduleId i) (user_id b) d = Inl err \<Longrightarrow>
   upsertSuggestion_schema i \<Longrightarrow> upsertSuggestion i ctx e d = (Inl err, d)"
  by (simp add: upsertSuggestion_def defineAction_def z_object_def
      upsertSuggestion_handler_def requireUser_def)

lemma guard_deleteSuggestion:
  "locals_user ctx = Some b \<Longrightarrow> getOwnedSchedule (dg_scheduleId i) (user_id b) d = Inl err \<Longrightarrow>
   deleteSuggestion_schema i \<Longrightarrow> deleteSuggestion i ctx e d = (Inl err, d)"
  by (simp add: deleteSuggestion_def defineAction_def z_object_def
      deleteSuggestion_handler_def requireUser_def)


text \<open>
  Claim C1. Let the store \<open>dA\<close> hold a schedule \<open>s\<close> whose owner is not the caller
  \<open>b\<close>, and let the store \<open>dN\<close> hold no schedule with the id of \<open>s\<close> at all. Each of
  updateSchedule, deleteSchedule, getScheduleWithDetails, upsertParticipant,
  deleteParticipant, upsertSuggestion and deleteSuggestion, called by \<open>b\<close> with a
  well-formed input that targets the id of \<open>s\<close>, fails in both stores with the same error,
  code NOT_FOUND and message "Schedule not found.", and leaves the store as it was.
\<close>

theorem foreign_schedule_not_found:
  assumes pk: "primary_keys dA"
    and S: "s \<in> set (Schedules dA)"
    and other: "s_ownerUserId s \<noteq> user_id b"
    and absent: "\<forall>x \<in> set (Schedules dN). s_id x \<noteq> s_id s"
    and caller: "locals_user ctx = Some b"
    and i1: "us_id i1 = s_id s" "updateSchedule_schema i1"
    and i2: "ds_id i2 = s_id s" "deleteSchedule_schema i2"
    and i3: "gd_id i3 = s_id s" "getScheduleWithDetails_schema i3"
    and i4: "up_scheduleId i4 = s_id s" "upsertParticipant_schema i4"
    and i5: "dp_scheduleId i5 = s_id s" "deleteParticipant_schema i5"
    and i6: "ug_scheduleId i6 = s_id s" "upsertSuggestion_schema i6"
    and i7: "dg_scheduleId i7 = s_id s" "deleteSuggestion_schema i7"
  shows "(let nf = ActionError NOT_FOUND ''Schedule not found.'' in
          updateSchedule i1 ctx e dA = (Inl nf, dA) \<and>
          updateSchedule i1 ctx e dN = (Inl nf, dN) \<and>
          deleteSchedule i2 ctx e dA = (Inl nf, dA) \<and>
          deleteSchedule i2 ctx e dN = (Inl nf, dN) \<and>
          getScheduleWithDetails i3 ctx e dA = (Inl nf, dA) \<and>
          getScheduleWithDetails i3 ctx e dN = (Inl nf, dN) \<and>
          upsertParticipant i4 ctx e dA = (Inl nf, dA) \<and>
          upsertParticipant i4 ctx e dN = (Inl nf, dN) \<and>
          deleteParticipant i5 ctx e dA = (Inl nf, dA) \<and>
          deleteParticipant i5 ctx e dN = (Inl nf, dN) \<and>
          upsertSuggestion i6 ctx e dA = (Inl nf, dA) \<and>
          upsertSuggestion i6 ctx e dN = (Inl nf, dN) \<and>
          deleteSuggestion i7 ctx e dA = (Inl nf, dA) \<and>
          deleteSuggestion i7 ctx e dN = (Inl nf, dN))"
proof -
  have gA: "getOwnedSchedule (s_id s) (user_id b) dA = Inl schedule_not_found"
    using getOwnedSchedule_foreign [OF pk S other] .
  have gN: "getOwnedSchedule (s_id s) (user_id b) dN = Inl schedule_not_found"
    using absent by (intro getOwnedSchedule_none) simp
  have "updateSchedule i1 ctx e dA = (Inl schedule_not_found, dA)"
       "updateSchedule i1 ctx e dN = (Inl schedule_not_found, dN)"
    using guard_updateSchedule [OF caller _ i1(2)] gA gN i1(1) by simp_all
  moreover have "deleteSchedule i2 ctx e dA = (Inl schedule_not_found, dA)"
       "deleteSchedule i2 ctx e dN = (Inl schedule_not_found, dN)"
    using guard_deleteSchedule [OF caller _ i2(2)] gA gN i2(1) by simp_all
  moreover have "getScheduleWithDetails i3 ctx e dA = (Inl schedule_not_found, dA)"
       "getScheduleWithDetails i3 ctx e dN = (Inl schedule_not_found, dN)"
    using guard_getScheduleWithDetails [OF caller _ i3(2)] gA gN i3(1) by simp_all
  moreover have "upsertParticipant i4 ctx e dA = (Inl schedule_not_found, dA)"
       "upsertParticipant i4 ctx e dN = (Inl schedule_not_found, dN)"
    using guard_upsertParticipant [OF caller _ i4(2)] gA gN i4(1) by simp_all
  moreover have "deleteParticipant i5 ctx e dA = (Inl schedule_not_found, dA)"
       "deleteParticipant i5 ctx e dN = (Inl schedule_not_found, dN)"
    using guard_deleteParticipant [OF caller _ i5(2)] gA gN i5(1) by simp_all
  moreover have "upsertSuggestion i6 ctx e dA = (Inl schedule_not_found, dA)"
       "upsertSuggestion i6 ctx e dN = (Inl schedule_not_found, dN)"
    using guard_upsertSuggestion [OF caller _ i6(2)] gA gN i6(1) by simp_all
  moreover have "deleteSuggestion i7 ctx e dA = (Inl schedule_not_found, dA)"
       "deleteSuggestion i7 ctx e dN = (Inl schedule_not_found, dN)"
    using guard_deleteSuggestion [OF caller _ i7(2)] gA gN i7(1) by simp_all
  ultimately show ?thesis unfolding Let_def by blast
qed


theorem foreign_schedule_not_found_witness:
  "primary_keys db0 \<and> alice_schedule \<in> set (Schedules db0) \<and>
   s_ownerUserId alice_schedule \<noteq> ''bob'' \<and>
   updateSchedule \<lparr>us_id = ''s1'', us_name = Some ''x'', us_description = None,
       us_baseTimeZone = None, us_durationMinutes = None\<rparr> (signed_in ''bob'') env0 db0
     = (Inl (ActionError NOT_FOUND ''Schedule not found.''), db0) \<and>
   updateSchedule \<lparr>us_id = ''s1'', us_name = Some ''x'', us_description = None,
       us_baseTimeZone = None, us_durationMinutes = None\<rparr> (signed_in ''bob'') env0
       (db0\<lparr>Schedules := [bob_schedule]\<rparr>)
     = (Inl (ActionError NOT_FOUND ''Schedule not found.''), db0\<lparr>Schedules := [bob_schedule]\<rparr>) \<and>
   deleteSchedule \<lparr>ds_id = ''s1''\<rparr> (signed_in ''bob'') env0 db0
     = (Inl (ActionError NOT_FOUND ''Schedule not found.''), db0) \<and>
   upsertParticipant \<lparr>up_id = None, up_scheduleId = ''s1'', up_name = ''Eve'',
       up_timeZone = ''UTC'', up_availabilityJson = None\<rparr> (signed_in ''bob'') env0 db0
     = (Inl (ActionError NOT_FOUND ''Schedule not found.''), db0) \<and>
   deleteSuggestion \<lparr>dg_scheduleId = ''s1'', dg_suggestionId = ''g1''\<rparr> (signed_in ''bob'') env0 db0
     = (Inl (ActionError NOT_FOUND ''Schedule not found.''), db0)"
proof -
  have pk: "primary_keys db0"
    by (simp add: primary_keys_def example_defs)
  have S: "alice_schedule \<in> set (Schedules db0)"
    by (simp add: db0_def)
  have other: "s_ownerUserId alice_schedule \<noteq> user_id \<lparr>user_id = ''bob''\<rparr>"
    by (simp add: alice_schedule_def)
  have absent: "\<forall>x \<in> set (Schedules (db0\<lparr>Schedules := [bob_schedule]\<rparr>)). s_id x \<noteq> s_id alice_schedule"
    by (simp add: example_defs)
  have caller: "locals_user (signed_in ''bob'') = Some \<lparr>user_id = ''bob''\<rparr>"
    by (simp add: signed_in_def)
  show ?thesis
    using pk S other
      foreign_schedule_not_found [OF pk S other absent caller,
        where ?i1.0 = "\<lparr>us_id = ''s1'', us_name = Some ''x'', us_description = None,
                 us_baseTimeZone = None, us_durationMinutes = None\<rparr>"
          and ?i2.0 = "\<lparr>ds_id = ''s1''\<rparr>"
          and ?i3.0 = "\<lparr>gd_id = ''s1''\<rparr>"
          and ?i4.0 = "\<lparr>up_id = None, up_scheduleId = ''s1'', up_name = ''Eve'',
                 up_timeZone = ''UTC'', up_availabilityJson = None\<rparr>"
          and ?i5.0 = "\<lparr>dp_scheduleId = ''s1'', dp_participantId = ''p1''\<rparr>"
          and ?i6.0 = "\<lparr>ug_id = None, ug_scheduleId = ''s1'', ug_suggestedStartUtc = 1,
                 ug_suggestedEndUtc = 2, ug_participantsJson = None, ug_score = Some 7,
                 ug_notes = None\<rparr>"
          and ?i7.0 = "\<lparr>dg_scheduleId = ''s1'', dg_suggestionId = ''g1''\<rparr>"
          and e = env0]
    by (simp add: alice_schedule_def updateSchedule_schema_def deleteSchedule_schema_def
        getScheduleWithDetails_schema_def upsertParticipant_schema_def
        deleteParticipant_schema_def upsertSuggestion_schema_def deleteSuggestion_schema_def
        min1_def optional_def score_ok_def isInteger_def Let_def)
qed

section \<open>Cascade delete\<close>

lemma getOwnedSchedule_owned:
  assumes "s \<in> set (Schedules d)" "s_id s = sid" "s_ownerUserId s = uid"
  shows "\<exists>s'. getOwnedSchedule sid uid d = Inr s'"
proof -
  from assms have "filter (\<lambda>s. s_id s = sid \<and> s_ownerUserId s = uid) (Schedules d) \<noteq> []"
    by (auto simp: filter_empty_conv)
  then show ?thesis
    by (simp add: getOwnedSchedule_def db_select_def split: list.splits)
qed

lemma first_row_None: "first_row rows = None \<longleftrightarrow> rows = []"
  by (simp add: first_row_def split: list.splits)

lemma first_row_select_None:
  "first_row (db_select wh rows) = None \<longleftrightarrow> (\<forall>r \<in> set rows. \<not> wh r)"
  by (simp add: first_row_None db_select_def filter_empty_conv)

lemma first_row_select_Some:
  "first_row (db_select wh rows) = Some r \<Longrightarrow> r \<in> set rows \<and> wh r"
proof -
  assume "first_row (db_select wh rows) = Some r"
  then obtain rest where "filter wh rows = r # rest"
    by (auto simp: first_row_def db_select_def split: list.splits)
  then have "r \<in> set (filter wh rows)" by simp
  then show ?thesis by simp
qed

lemma deleteSchedule_success:
  assumes "deleteSchedule i ctx e d = (Inr r, d')"
  shows "\<exists>usr s. locals_user ctx = Some usr \<and>
           getOwnedSchedule (ds_id i) (user_id usr) d = Inr s \<and>
           d' = last (deleteSchedule_statements (ds_id i) (user_id usr) d)"
  using assms
  by (auto simp: deleteSchedule_def defineAction_def z_object_def deleteSchedule_handler_def
      requireUser_def split: option.splits sum.splits if_splits)

lemma owned_rows_by_id:
  assumes pk: "primary_keys d" and g: "getOwnedSchedule sid uid d = Inr s"
  shows "filter (\<lambda>x. \<not> (s_id x = sid \<and> s_ownerUserId x = uid)) (Schedules d) =
         filter (\<lambda>x. s_id x \<noteq> sid) (Schedules d)"
proof (rule filter_cong [OF refl])
  fix x assume x: "x \<in> set (Schedules d)"
  from getOwnedSchedule_found [OF g] have s: "s \<in> set (Schedules d)" "s_id s = sid"
    "s_ownerUserId s = uid" by simp_all
  show "(\<not> (s_id x = sid \<and> s_ownerUserId x = uid)) = (s_id x \<noteq> sid)"
    using schedule_pk_unique [OF pk x s(1)] s by auto
qed

text \<open>
  Claim C2. A successful deleteSchedule runs three delete statements in this order: the
  first removes exactly the suggestions of the schedule, the second exactly its
  participants, the third the schedule row, which is still in the store after the first
  two. In the store it returns, selecting participants or suggestions by that scheduleId
  gives the empty list and no schedule row has that id.
\<close>

theorem deleteSchedule_cascade:
  assumes pk: "primary_keys d"
    and ok: "deleteSchedule i ctx e d = (Inr r, d')"
  shows "\<exists>usr d1 d2.
           locals_user ctx = Some usr \<and>
           deleteSchedule_statements (ds_id i) (user_id usr) d = [d1, d2, d'] \<and>
           d1 = d\<lparr>ScheduleSuggestions :=
                    filter (\<lambda>g. g_scheduleId g \<noteq> ds_id i) (ScheduleSuggestions d)\<rparr> \<and>
           d2 = d1\<lparr>ScheduleParticipants :=
                     filter (\<lambda>p. p_scheduleId p \<noteq> ds_id i) (ScheduleParticipants d1)\<rparr> \<and>
           d' = d2\<lparr>Schedules := filter (\<lambda>s. s_id s \<noteq> ds_id i) (Schedules d2)\<rparr> \<and>
           (\<exists>s \<in> set (Schedules d2). s_id s = ds_id i) \<and>
           db_select (\<lambda>p. p_scheduleId p = ds_id i) (ScheduleParticipants d') = [] \<and>
           db_select (\<lambda>g. g_scheduleId g = ds_id i) (ScheduleSuggestions d') = [] \<and>
           (\<forall>s \<in> set (Schedules d'). s_id s \<noteq> ds_id i)"
proof -
  from deleteSchedule_success [OF ok] obtain usr s where
    u: "locals_user ctx = Some usr" and
    g: "getOwnedSchedule (ds_id i) (user_id usr) d = Inr s" and
    d': "d' = last (deleteSchedule_statements (ds_id i) (user_id usr) d)"
    by blast
  define d1 where "d1 = d\<lparr>ScheduleSuggestions :=
                    filter (\<lambda>g. g_scheduleId g \<noteq> ds_id i) (ScheduleSuggestions d)\<rparr>"
  define d2 where "d2 = d1\<lparr>ScheduleParticipants :=
                     filter (\<lambda>p. p_scheduleId p \<noteq> ds_id i) (ScheduleParticipants d1)\<rparr>"
  have d3: "d' = d2\<lparr>Schedules := filter (\<lambda>s. s_id s \<noteq> ds_id i) (Schedules d2)\<rparr>"
    using owned_rows_by_id [OF pk g]
    by (simp add: d' deleteSchedule_statements_def db_delete_def d1_def d2_def Let_def)
  have tr: "deleteSchedule_statements (ds_id i) (user_id usr) d = [d1, d2, d']"
    using owned_rows_by_id [OF pk g]
    by (simp add: d3 deleteSchedule_statements_def db_delete_def d1_def d2_def Let_def)
  have still: "\<exists>s \<in> set (Schedules d2). s_id s = ds_id i"
    using getOwnedSchedule_found [OF g] by (auto simp: d1_def d2_def)
  have "db_select (\<lambda>p. p_scheduleId p = ds_id i) (ScheduleParticipants d') = []"
    by (simp add: d3 d2_def db_select_def filter_empty_conv)
  moreover have "db_select (\<lambda>g. g_scheduleId g = ds_id i) (ScheduleSuggestions d') = []"
    by (simp add: d3 d2_def d1_def db_select_def filter_empty_conv)
  moreover have "\<forall>s \<in> set (Schedules d'). s_id s \<noteq> ds_id i"
    by (simp add: d3)
  ultimately show ?thesis
    using u tr d3 still d1_def d2_def by blast
qed

theorem deleteSchedule_cascade_witness:
  "primary_keys db0 \<and>
   deleteSchedule \<lparr>ds_id = ''s1''\<rparr> (signed_in ''alice'') env0 db0 =
     (Inr (), \<lparr>Schedules = [bob_schedule], ScheduleParticipants = [astra],
               ScheduleSuggestions = [window2]\<rparr>) \<and>
   deleteSchedule_statements ''s1'' ''alice'' db0 =
     [\<lparr>Schedules = [alice_schedule, bob_schedule], ScheduleParticipants = [karthik, astra],
       ScheduleSuggestions = [window2]\<rparr>,
      \<lparr>Schedules = [alice_schedule, bob_schedule], ScheduleParticipants = [astra],
       ScheduleSuggestions = [window2]\<rparr>,
      \<lparr>Schedules = [bob_schedule], ScheduleParticipants = [astra],
       ScheduleSuggestions = [window2]\<rparr>]"
proof -
  have pk: "primary_keys db0"
    by (simp add: primary_keys_def example_defs)
  have ok: "deleteSchedule \<lparr>ds_id = ''s1''\<rparr> (signed_in ''alice'') env0 db0 =
     (Inr (), \<lparr>Schedules = [bob_schedule], ScheduleParticipants = [astra],
               ScheduleSuggestions = [window2]\<rparr>)"
    by (simp add: deleteSchedule_def defineAction_def z_object_def deleteSchedule_schema_def
        min1_def deleteSchedule_handler_def requireUser_def getOwnedSchedule_def db_select_def
        deleteSchedule_statements_def db_delete_def example_defs)
  show ?thesis
    using pk ok deleteSchedule_cascade [OF pk ok]
    by (simp add: example_defs)
qed

section \<open>The child upsert and delete handlers, step by step\<close>

lemma truthy_Some: "truthy v = Some x \<longleftrightarrow> v = Some x \<and> x \<noteq> []"
  by (auto simp: truthy_def split: option.splits)

lemma truthy_None: "truthy v = None \<longleftrightarrow> v = None \<or> v = Some []"
  by (auto simp: truthy_def split: option.splits)

lemma upsertParticipant_success:
  assumes "upsertParticipant i ctx e d = (Inr r, d')"
  shows "\<exists>usr s d1. locals_user ctx = Some usr \<and> upsertParticipant_schema i \<and>
           getOwnedSchedule (up_scheduleId i) (user_id usr) d = Inr s \<and>
           upsertParticipant_write i e d = Inr d1 \<and>
           d' = touchScheduleUpdatedAt (up_scheduleId i) (new_Date_touch e) d1 \<and>
           r = db_select (\<lambda>p. p_scheduleId p = up_scheduleId i) (ScheduleParticipants d')"
  using assms
  by (auto simp: upsertParticipant_def defineAction_def z_object_def
      upsertParticipant_handler_def requireUser_def Let_def
      split: option.splits sum.splits if_splits)

lemma upsertParticipant_run:
  assumes "locals_user ctx = Some usr" "upsertParticipant_schema i"
    "getOwnedSchedule (up_scheduleId i) (user_id usr) d = Inr s"
  shows "upsertParticipant i ctx e d =
           (case upsertParticipant_write i e d of
              Inl err \<Rightarrow> (Inl err, d)
            | Inr d1 \<Rightarrow>
                (Inr (db_select (\<lambda>p. p_scheduleId p = up_scheduleId i)
                        (ScheduleParticipants
                           (touchScheduleUpdatedAt (up_scheduleId i) (new_Date_touch e) d1))),
                 touchScheduleUpdatedAt (up_scheduleId i) (new_Date_touch e) d1))"
  using assms
  by (simp add: upsertParticipant_def defineAction_def z_object_def
      upsertParticipant_handler_def requireUser_def Let_def split: sum.splits)

lemma upsertParticipant_write_insert:
  assumes "truthy (up_id i) = None"
  shows "upsertParticipant_write i e d =
           (if randomUUID e \<in> p_id ` set (ScheduleParticipants d)
            then Inl UniqueConstraintError
            else Inr (d\<lparr>ScheduleParticipants :=
                           ScheduleParticipants d @ [participant_values i e]\<rparr>))"
  using assms
  by (simp add: upsertParticipant_write_def db_insert_def participant_values_def)

lemma upsertParticipant_write_update:
  assumes "truthy (up_id i) = Some x"
  shows "upsertParticipant_write i e d =
           (if \<forall>p \<in> set (ScheduleParticipants d).
                 \<not> (p_id p = x \<and> p_scheduleId p = up_scheduleId i)
            then Inl (ActionError NOT_FOUND ''Participant not found for this schedule.'')
            else Inr (d\<lparr>ScheduleParticipants :=
                           map (\<lambda>p. if p_id p = x \<and> p_scheduleId p = up_scheduleId i
                                     then participant_set i p else p)
                             (ScheduleParticipants d)\<rparr>))"
proof (cases "first_row (db_select (\<lambda>p. p_id p = x \<and> p_scheduleId p = up_scheduleId i)
                           (ScheduleParticipants d))")
  case None
  then show ?thesis
    using assms first_row_select_None [THEN iffD1, OF None]
    by (simp add: upsertParticipant_write_def Let_def)
next
  case (Some a)
  then have "\<not> (\<forall>p \<in> set (ScheduleParticipants d).
                 \<not> (p_id p = x \<and> p_scheduleId p = up_scheduleId i))"
    using first_row_select_Some [OF Some] by blast
  then show ?thesis
    using assms Some
    by (simp add: upsertParticipant_write_def Let_def db_update_def)
qed

lemma upsertSuggestion_success:
  assumes "upsertSuggestion i ctx e d = (Inr r, d')"
  shows "\<exists>usr s d1. locals_user ctx = Some usr \<and> upsertSuggestion_schema i \<and>
           getOwnedSchedule (ug_scheduleId i) (user_id usr) d = Inr s \<and>
           upsertSuggestion_write i e d = Inr d1 \<and>
           d' = touchScheduleUpdatedAt (ug_scheduleId i) (new_Date_touch e) d1 \<and>
           r = db_select (\<lambda>g. g_scheduleId g = ug_scheduleId i) (ScheduleSuggestions d')"
  using assms
  by (auto simp: upsertSuggestion_def defineAction_def z_object_def
      upsertSuggestion_handler_def requireUser_def Let_def
      split: option.splits sum.splits if_splits)

lemma upsertSuggestion_run:
  assumes "locals_user ctx = Some usr" "upsertSuggestion_schema i"
    "getOwnedSchedule (ug_scheduleId i) (user_id usr) d = Inr s"
  shows "upsertSuggestion i ctx e d =
           (case upsertSuggestion_write i e d of
              Inl err \<Rightarrow> (Inl err, d)
            | Inr d1 \<Rightarrow>
                (Inr (db_select (\<lambda>g. g_scheduleId g = ug_scheduleId i)
                        (ScheduleSuggestions
                           (touchScheduleUpdatedAt (ug_scheduleId i) (new_Date_touch e) d1))),
                 touchScheduleUpdatedAt (ug_scheduleId i) (new_Date_touch e) d1))"
  using assms
  by (simp add: upsertSuggestion_def defineAction_def z_object_def
      upsertSuggestion_handler_def requireUser_def Let_def split: sum.splits)

lemma upsertSuggestion_write_insert:
  assumes "truthy (ug_id i) = None"
  shows "upsertSuggestion_write i e d =
           (if randomUUID e \<in> g_id ` set (ScheduleSuggestions d)
            then Inl UniqueConstraintError
            else Inr (d\<lparr>ScheduleSuggestions :=
                           ScheduleSuggestions d @ [suggestion_values i e]\<rparr>))"
  using assms
  by (simp add: upsertSuggestion_write_def db_insert_def suggestion_values_def)

lemma upsertSuggestion_write_update:
  assumes "truthy (ug_id i) = Some x"
  shows "upsertSuggestion_write i e d =
           (if \<forall>g \<in> set (ScheduleSuggestions d).
                 \<not> (g_id g = x \<and> g_scheduleId g = ug_scheduleId i)
            then Inl (ActionError NOT_FOUND ''Suggestion not found for this schedule.'')
            else Inr (d\<lparr>ScheduleSuggestions :=
                           map (\<lambda>g. if g_id g = x \<and> g_scheduleId g = ug_scheduleId i
                                     then suggestion_set i g else g)
                             (ScheduleSuggestions d)\<rparr>))"
proof (cases "first_row (db_select (\<lambda>g. g_id g = x \<and> g_scheduleId g = ug_scheduleId i)
                           (ScheduleSuggestions d))")
  case None
  then show ?thesis
    using assms first_row_select_None [THEN iffD1, OF None]
    by (simp add: upsertSuggestion_write_def Let_def)
next
  case (Some a)
  then have "\<not> (\<forall>g \<in> set (ScheduleSuggestions d).
                 \<not> (g_id g = x \<and> g_scheduleId g = ug_scheduleId i))"
    using first_row_select_Some [OF Some] by blast
  then show ?thesis
    using assms Some
    by (simp add: upsertSuggestion_write_def Let_def db_update_def)
qed

lemma deleteParticipant_success:
  assumes "deleteParticipant i ctx e d = (Inr r, d')"
  shows "\<exists>usr s. locals_user ctx = Some usr \<and>
           getOwnedSchedule (dp_scheduleId i) (user_id usr) d = Inr s \<and>
           (\<exists>p \<in> set (ScheduleParticipants d).
              p_id p = dp_participantId i \<and> p_scheduleId p = dp_scheduleId i) \<and>
           d' = touchScheduleUpdatedAt (dp_scheduleId i) (new_Date_touch e)
                  (d\<lparr>ScheduleParticipants :=
                       filter (\<lambda>p. \<not> (p_id p = dp_participantId i \<and>
                                       p_scheduleId p = dp_scheduleId i))
                         (ScheduleParticipants d)\<rparr>)"
  using assms
  by (auto simp: deleteParticipant_def defineAction_def z_object_def
      deleteParticipant_handler_def requireUser_def Let_def db_delete_def
      split: option.splits sum.splits if_splits dest: first_row_select_Some)

lemma deleteSuggestion_success:
  assumes "deleteSuggestion i ctx e d = (Inr r, d')"
  shows "\<exists>usr s. locals_user ctx = Some usr \<and>
           getOwnedSchedule (dg_scheduleId i) (user_id usr) d = Inr s \<and>
           (\<exists>g \<in> set (ScheduleSuggestions d).
              g_id g = dg_suggestionId i \<and> g_scheduleId g = dg_scheduleId i) \<and>
           d' = touchScheduleUpdatedAt (dg_scheduleId i) (new_Date_touch e)
                  (d\<lparr>ScheduleSuggestions :=
                       filter (\<lambda>g. \<not> (g_id g = dg_suggestionId i \<and>
                                       g_scheduleId g = dg_scheduleId i))
                         (ScheduleSuggestions d)\<rparr>)"
  using assms
  by (auto simp: deleteSuggestion_def defineAction_def z_object_def
      deleteSuggestion_handler_def requireUser_def Let_def db_delete_def
      split: option.splits sum.splits if_splits dest: first_row_select_Some)

lemma touch_tables [simp]:
  "ScheduleParticipants (touchScheduleUpdatedAt sid now d) = ScheduleParticipants d"
  "ScheduleSuggestions (touchScheduleUpdatedAt sid now d) = ScheduleSuggestions d"
  "Schedules (touchScheduleUpdatedAt sid now d) =
     map (\<lambda>s. if s_id s = sid then s\<lparr>s_updatedAt := now\<rparr> else s) (Schedules d)"
  by (simp_all add: touchScheduleUpdatedAt_def db_update_def)

section \<open>Upsert with an id\<close>

text \<open>
  Claim C3, as amended. The caller owns the target schedule and supplies a non-empty id
  that names no child row of that schedule (the id belongs to a child of another
  schedule, or to no row). Then upsertParticipant and upsertSuggestion fail with
  NOT_FOUND and the store is unchanged: no row of any table is created or modified.
\<close>

theorem upsert_foreign_child_not_found:
  assumes caller: "locals_user ctx = Some usr"
    and ownsP: "\<exists>s \<in> set (Schedules d). s_id s = up_scheduleId ip \<and> s_ownerUserId s = user_id usr"
    and okP: "upsertParticipant_schema ip"
    and idP: "up_id ip = Some x" "x \<noteq> []"
    and noP: "\<forall>p \<in> set (ScheduleParticipants d). p_id p = x \<longrightarrow> p_scheduleId p \<noteq> up_scheduleId ip"
    and ownsG: "\<exists>s \<in> set (Schedules d). s_id s = ug_scheduleId ig \<and> s_ownerUserId s = user_id usr"
    and okG: "upsertSuggestion_schema ig"
    and idG: "ug_id ig = Some y" "y \<noteq> []"
    and noG: "\<forall>g \<in> set (ScheduleSuggestions d). g_id g = y \<longrightarrow> g_scheduleId g \<noteq> ug_scheduleId ig"
  shows "upsertParticipant ip ctx e d =
           (Inl (ActionError NOT_FOUND ''Participant not found for this schedule.''), d) \<and>
         upsertSuggestion ig ctx e d =
           (Inl (ActionError NOT_FOUND ''Suggestion not found for this schedule.''), d)"
proof
  from ownsP obtain s where "getOwnedSchedule (up_scheduleId ip) (user_id usr) d = Inr s"
    using getOwnedSchedule_owned by blast
  note run = upsertParticipant_run [OF caller okP this, of e]
  have t: "truthy (up_id ip) = Some x"
    using idP by (simp add: truthy_Some)
  have "upsertParticipant_write ip e d =
          Inl (ActionError NOT_FOUND ''Participant not found for this schedule.'')"
    using noP by (simp add: upsertParticipant_write_update [OF t])
  then show "upsertParticipant ip ctx e d =
           (Inl (ActionError NOT_FOUND ''Participant not found for this schedule.''), d)"
    by (simp add: run)
next
  from ownsG obtain s where "getOwnedSchedule (ug_scheduleId ig) (user_id usr) d = Inr s"
    using getOwnedSchedule_owned by blast
  note run = upsertSuggestion_run [OF caller okG this, of e]
  have t: "truthy (ug_id ig) = Some y"
    using idG by (simp add: truthy_Some)
  have "upsertSuggestion_write ig e d =
          Inl (ActionError NOT_FOUND ''Suggestion not found for this schedule.'')"
    using noG by (simp add: upsertSuggestion_write_update [OF t])
  then show "upsertSuggestion ig ctx e d =
           (Inl (ActionError NOT_FOUND ''Suggestion not found for this schedule.''), d)"
    by (simp add: run)
qed

text \<open>
  Alice owns schedule s1 and names Bob's participant p2 and Bob's suggestion g2, which
  are children of schedule s2.
\<close>

theorem upsert_foreign_child_not_found_witness:
  "astra \<in> set (ScheduleParticipants db0) \<and> p_id astra = ''p2'' \<and> p_scheduleId astra = ''s2'' \<and>
   upsertParticipant
     \<lparr>up_id = Some ''p2'', up_scheduleId = ''s1'', up_name = ''Eve'', up_timeZone = ''UTC'',
      up_availabilityJson = None\<rparr> (signed_in ''alice'') env0 db0 =
     (Inl (ActionError NOT_FOUND ''Participant not found for this schedule.''), db0) \<and>
   upsertSuggestion
     \<lparr>ug_id = Some ''g2'', ug_scheduleId = ''s1'', ug_suggestedStartUtc = 1,
      ug_suggestedEndUtc = 2, ug_participantsJson = None, ug_score = None,
      ug_notes = None\<rparr> (signed_in ''alice'') env0 db0 =
     (Inl (ActionError NOT_FOUND ''Suggestion not found for this schedule.''), db0)"
proof -
  have caller: "locals_user (signed_in ''alice'') = Some \<lparr>user_id = ''alice''\<rparr>"
    by (simp add: signed_in_def)
  show ?thesis
    using upsert_foreign_child_not_found [OF caller,
        where d = db0 and e = env0 and x = "''p2''" and y = "''g2''"
          and ip = "\<lparr>up_id = Some ''p2'', up_scheduleId = ''s1'', up_name = ''Eve'',
                     up_timeZone = ''UTC'', up_availabilityJson = None\<rparr>"
          and ig = "\<lparr>ug_id = Some ''g2'', ug_scheduleId = ''s1'', ug_suggestedStartUtc = 1,
                     ug_suggestedEndUtc = 2, ug_participantsJson = None, ug_score = None,
                     ug_notes = None\<rparr>"]
    by (simp add: example_defs upsertParticipant_schema_def upsertSuggestion_schema_def
        min1_def optional_def)
qed

text \<open>
  Claim C3 as stated fails for the empty id. Alice owns schedule s1 and supplies the id
  \<open>''''\<close>, which names no participant row; the call does not fail with NOT_FOUND: it
  inserts a new participant and touches the schedule.
\<close>

theorem upsert_empty_id_counterexample:
  "'''' \<notin> p_id ` set (ScheduleParticipants db0) \<and>
   upsertParticipant
     \<lparr>up_id = Some '''', up_scheduleId = ''s1'', up_name = ''Eve'', up_timeZone = ''UTC'',
      up_availabilityJson = None\<rparr> (signed_in ''alice'') env0 db0 =
     (Inr [karthik,
           \<lparr>p_id = ''u1'', p_scheduleId = ''s1'', p_name = ''Eve'', p_timeZone = ''UTC'',
            p_availabilityJson = None, p_createdAt = 2000\<rparr>],
      \<lparr>Schedules = [alice_schedule\<lparr>s_updatedAt := 2001\<rparr>, bob_schedule],
       ScheduleParticipants =
         [karthik, astra,
          \<lparr>p_id = ''u1'', p_scheduleId = ''s1'', p_name = ''Eve'', p_timeZone = ''UTC'',
           p_availabilityJson = None, p_createdAt = 2000\<rparr>],
       ScheduleSuggestions = [window1, window2]\<rparr>) \<and>
   upsertParticipant
     \<lparr>up_id = Some '''', up_scheduleId = ''s1'', up_name = ''Eve'', up_timeZone = ''UTC'',
      up_availabilityJson = None\<rparr> (signed_in ''alice'') env0 db0 \<noteq>
     (Inl (ActionError NOT_FOUND ''Participant not found for this schedule.''), db0)"
  by (simp add: upsertParticipant_def defineAction_def z_object_def upsertParticipant_schema_def
      min1_def upsertParticipant_handler_def requireUser_def getOwnedSchedule_def db_select_def
      upsertParticipant_write_def truthy_def db_insert_def participant_values_def
      touchScheduleUpdatedAt_def db_update_def example_defs)

section \<open>Create or update in place\<close>

lemma touch_ids: "map s_id (Schedules (touchScheduleUpdatedAt sid now d)) = map s_id (Schedules d)"
  by (simp add: o_def cong: map_cong)

lemma participant_insert_effect:
  assumes ok: "upsertParticipant i ctx e d = (Inr r, d')" and t: "truthy (up_id i) = None"
  shows "randomUUID e \<notin> p_id ` set (ScheduleParticipants d) \<and>
         ScheduleParticipants d' = ScheduleParticipants d @ [participant_values i e] \<and>
         ScheduleSuggestions d' = ScheduleSuggestions d \<and>
         map s_id (Schedules d') = map s_id (Schedules d)"
proof -
  from upsertParticipant_success [OF ok] obtain d1 where
    w: "upsertParticipant_write i e d = Inr d1" and
    d': "d' = touchScheduleUpdatedAt (up_scheduleId i) (new_Date_touch e) d1"
    by blast
  from w have fresh: "randomUUID e \<notin> p_id ` set (ScheduleParticipants d)"
    and d1: "d1 = d\<lparr>ScheduleParticipants := ScheduleParticipants d @ [participant_values i e]\<rparr>"
    by (simp_all add: upsertParticipant_write_insert [OF t] split: if_splits)
  show ?thesis
    using fresh by (simp add: d' touch_ids) (simp add: d1)
qed

lemma participant_update_effect:
  assumes ok: "upsertParticipant i ctx e d = (Inr r, d')" and t: "truthy (up_id i) = Some x"
  shows "(\<exists>p \<in> set (ScheduleParticipants d). p_id p = x \<and> p_scheduleId p = up_scheduleId i) \<and>
         ScheduleParticipants d' =
           map (\<lambda>p. if p_id p = x \<and> p_scheduleId p = up_scheduleId i
                     then participant_set i p else p) (ScheduleParticipants d) \<and>
         ScheduleSuggestions d' = ScheduleSuggestions d \<and>
         map s_id (Schedules d') = map s_id (Schedules d)"
proof -
  from upsertParticipant_success [OF ok] obtain d1 where
    w: "upsertParticipant_write i e d = Inr d1" and
    d': "d' = touchScheduleUpdatedAt (up_scheduleId i) (new_Date_touch e) d1"
    by blast
  from w have ex: "\<exists>p \<in> set (ScheduleParticipants d). p_id p = x \<and> p_scheduleId p = up_scheduleId i"
    and d1: "d1 = d\<lparr>ScheduleParticipants :=
                     map (\<lambda>p. if p_id p = x \<and> p_scheduleId p = up_scheduleId i
                               then participant_set i p else p) (ScheduleParticipants d)\<rparr>"
    by (simp_all add: upsertParticipant_write_update [OF t] split: if_splits)
  show ?thesis
    using ex by (simp add: d' touch_ids) (simp add: d1)
qed

lemma suggestion_insert_effect:
  assumes ok: "upsertSuggestion i ctx e d = (Inr r, d')" and t: "truthy (ug_id i) = None"
  shows "randomUUID e \<notin> g_id ` set (ScheduleSuggestions d) \<and>
         ScheduleSuggestions d' = ScheduleSuggestions d @ [suggestion_values i e] \<and>
         ScheduleParticipants d' = ScheduleParticipants d \<and>
         map s_id (Schedules d') = map s_id (Schedules d)"
proof -
  from upsertSuggestion_success [OF ok] obtain d1 where
    w: "upsertSuggestion_write i e d = Inr d1" and
    d': "d' = touchScheduleUpdatedAt (ug_scheduleId i) (new_Date_touch e) d1"
    by blast
  from w have fresh: "randomUUID e \<notin> g_id ` set (ScheduleSuggestions d)"
    and d1: "d1 = d\<lparr>ScheduleSuggestions := ScheduleSuggestions d @ [suggestion_values i e]\<rparr>"
    by (simp_all add: upsertSuggestion_write_insert [OF t] split: if_splits)
  show ?thesis
    using fresh by (simp add: d' touch_ids) (simp add: d1)
qed

lemma suggestion_update_effect:
  assumes ok: "upsertSuggestion i ctx e d = (Inr r, d')" and t: "truthy (ug_id i) = Some x"
  shows "(\<exists>g \<in> set (ScheduleSuggestions d). g_id g = x \<and> g_scheduleId g = ug_scheduleId i) \<and>
         ScheduleSuggestions d' =
           map (\<lambda>g. if g_id g = x \<and> g_scheduleId g = ug_scheduleId i
                     then suggestion_set i g else g) (ScheduleSuggestions d) \<and>
         ScheduleParticipants d' = ScheduleParticipants d \<and>
         map s_id (Schedules d') = map s_id (Schedules d)"
proof -
  from upsertSuggestion_success [OF ok] obtain d1 where
    w: "upsertSuggestion_write i e d = Inr d1" and
    d': "d' = touchScheduleUpdatedAt (ug_scheduleId i) (new_Date_touch e) d1"
    by blast
  from w have ex: "\<exists>g \<in> set (ScheduleSuggestions d). g_id g = x \<and> g_scheduleId g = ug_scheduleId i"
    and d1: "d1 = d\<lparr>ScheduleSuggestions :=
                     map (\<lambda>g. if g_id g = x \<and> g_scheduleId g = ug_scheduleId i
                               then suggestion_set i g else g) (ScheduleSuggestions d)\<rparr>"
    by (simp_all add: upsertSuggestion_write_update [OF t] split: if_splits)
  show ?thesis
    using ex by (simp add: d' touch_ids) (simp add: d1)
qed

text \<open>
  Claim C4. A successful upsertParticipant or upsertSuggestion without an id appends
  exactly one row to the child table: the row holds the generated UUID as id, which no
  row of the table had before, the time read by the handler as createdAt, and the
  fields of the input. A successful upsert with a non-empty id finds that row under the
  schedule and updates it in place: the table has the same rows in the same places,
  every row keeps its id, scheduleId and createdAt, the row with that id under the
  schedule holds the supplied values (name and timeZone of a participant, the two dates
  of a suggestion, and every optional field the input supplies), and every other row
  is unchanged. Neither creates a row in another table. The participant half and the
  suggestion half hold independently of each other.
\<close>

theorem upsert_creates_or_updates_in_place:
  "(upsertParticipant ip ctx e d = (Inr rp, dp) \<longrightarrow>
      (up_id ip = None \<longrightarrow>
         randomUUID e \<notin> p_id ` set (ScheduleParticipants d) \<and>
         ScheduleParticipants dp =
           ScheduleParticipants d @
             [\<lparr>p_id = randomUUID e, p_scheduleId = up_scheduleId ip, p_name = up_name ip,
               p_timeZone = up_timeZone ip, p_availabilityJson = up_availabilityJson ip,
               p_createdAt = new_Date e\<rparr>]) \<and>
      (\<forall>x. up_id ip = Some x \<and> x \<noteq> [] \<longrightarrow>
         (\<exists>p \<in> set (ScheduleParticipants d). p_id p = x \<and> p_scheduleId p = up_scheduleId ip) \<and>
         list_all2
           (\<lambda>old new.
              p_id new = p_id old \<and> p_scheduleId new = p_scheduleId old \<and>
              p_createdAt new = p_createdAt old \<and>
              (if p_id old = x \<and> p_scheduleId old = up_scheduleId ip
               then p_name new = up_name ip \<and> p_timeZone new = up_timeZone ip \<and>
                    (\<forall>v. up_availabilityJson ip = Some v \<longrightarrow> p_availabilityJson new = Some v)
               else new = old))
           (ScheduleParticipants d) (ScheduleParticipants dp)) \<and>
      ScheduleSuggestions dp = ScheduleSuggestions d \<and>
      map s_id (Schedules dp) = map s_id (Schedules d)) \<and>
   (upsertSuggestion ig cg eg dG = (Inr rg, dg) \<longrightarrow>
      (ug_id ig = None \<longrightarrow>
         randomUUID eg \<notin> g_id ` set (ScheduleSuggestions dG) \<and>
         ScheduleSuggestions dg =
           ScheduleSuggestions dG @
             [\<lparr>g_id = randomUUID eg, g_scheduleId = ug_scheduleId ig,
               g_suggestedStartUtc = ug_suggestedStartUtc ig,
               g_suggestedEndUtc = ug_suggestedEndUtc ig,
               g_participantsJson = ug_participantsJson ig, g_score = ug_score ig,
               g_notes = ug_notes ig, g_createdAt = new_Date eg\<rparr>]) \<and>
      (\<forall>y. ug_id ig = Some y \<and> y \<noteq> [] \<longrightarrow>
         (\<exists>g \<in> set (ScheduleSuggestions dG). g_id g = y \<and> g_scheduleId g = ug_scheduleId ig) \<and>
         list_all2
           (\<lambda>old new.
              g_id new = g_id old \<and> g_scheduleId new = g_scheduleId old \<and>
              g_createdAt new = g_createdAt old \<and>
              (if g_id old = y \<and> g_scheduleId old = ug_scheduleId ig
               then g_suggestedStartUtc new = ug_suggestedStartUtc ig \<and>
                    g_suggestedEndUtc new = ug_suggestedEndUtc ig \<and>
                    (\<forall>v. ug_participantsJson ig = Some v \<longrightarrow> g_participantsJson new = Some v) \<and>
                    (\<forall>v. ug_score ig = Some v \<longrightarrow> g_score new = Some v) \<and>
                    (\<forall>v. ug_notes ig = Some v \<longrightarrow> g_notes new = Some v)
               else new = old))
           (ScheduleSuggestions dG) (ScheduleSuggestions dg)) \<and>
      ScheduleParticipants dg = ScheduleParticipants dG \<and>
      map s_id (Schedules dg) = map s_id (Schedules dG))"
  (is "(?okP \<longrightarrow> ?P1 \<and> ?P2 \<and> ?P3) \<and> (?okG \<longrightarrow> ?G1 \<and> ?G2 \<and> ?G3)")
proof (rule conjI; rule impI)
  assume okP: ?okP
  have P1: ?P1
    using participant_insert_effect [OF okP]
    by (simp add: truthy_None participant_values_def)
  have P2: ?P2
    using participant_update_effect [OF okP]
    by (auto simp: truthy_Some list_all2_map2 list_all2_same participant_set_def
        set_optional_def)
  have P3: ?P3
  proof (cases "truthy (up_id ip)")
    case None
    from participant_insert_effect [OF okP None] show ?thesis by simp
  next
    case (Some x)
    from participant_update_effect [OF okP Some] show ?thesis by simp
  qed
  show "?P1 \<and> ?P2 \<and> ?P3" by (rule conjI [OF P1 conjI [OF P2 P3]])
next
  assume okG: ?okG
  have G1: ?G1
    using suggestion_insert_effect [OF okG]
    by (simp add: truthy_None suggestion_values_def)
  have G2: ?G2
    using suggestion_update_effect [OF okG]
    by (auto simp: truthy_Some list_all2_map2 list_all2_same suggestion_set_def
        set_optional_def)
  have G3: ?G3
  proof (cases "truthy (ug_id ig)")
    case None
    from suggestion_insert_effect [OF okG None] show ?thesis by simp
  next
    case (Some x)
    from suggestion_update_effect [OF okG Some] show ?thesis by simp
  qed
  show "?G1 \<and> ?G2 \<and> ?G3" by (rule conjI [OF G1 conjI [OF G2 G3]])
qed

text \<open>
  Alice adds a participant to her schedule s1 without an id, updates her participant p1
  by id, adds a suggestion without an id and updates her suggestion g1 by id.
\<close>

theorem upsert_creates_or_updates_in_place_witness:
  "upsertParticipant
     \<lparr>up_id = None, up_scheduleId = ''s1'', up_name = ''Eve'', up_timeZone = ''UTC'',
      up_availabilityJson = None\<rparr> (signed_in ''alice'') env0 db0 =
     (Inr [karthik,
           \<lparr>p_id = ''u1'', p_scheduleId = ''s1'', p_name = ''Eve'', p_timeZone = ''UTC'',
            p_availabilityJson = None, p_createdAt = 2000\<rparr>],
      \<lparr>Schedules = [alice_schedule\<lparr>s_updatedAt := 2001\<rparr>, bob_schedule],
       ScheduleParticipants =
         [karthik, astra,
          \<lparr>p_id = ''u1'', p_scheduleId = ''s1'', p_name = ''Eve'', p_timeZone = ''UTC'',
           p_availabilityJson = None, p_createdAt = 2000\<rparr>],
       ScheduleSuggestions = [window1, window2]\<rparr>) \<and>
   randomUUID env0 \<notin> p_id ` set (ScheduleParticipants db0) \<and>
   upsertParticipant
     \<lparr>up_id = Some ''p1'', up_scheduleId = ''s1'', up_name = ''Karthik S'',
      up_timeZone = ''Asia/Kolkata'', up_availabilityJson = Some ''[9,17]''\<rparr>
     (signed_in ''alice'') env0 db0 =
     (Inr [\<lparr>p_id = ''p1'', p_scheduleId = ''s1'', p_name = ''Karthik S'',
            p_timeZone = ''Asia/Kolkata'', p_availabilityJson = Some ''[9,17]'',
            p_createdAt = 1100\<rparr>],
      \<lparr>Schedules = [alice_schedule\<lparr>s_updatedAt := 2001\<rparr>, bob_schedule],
       ScheduleParticipants =
         [\<lparr>p_id = ''p1'', p_scheduleId = ''s1'', p_name = ''Karthik S'',
           p_timeZone = ''Asia/Kolkata'', p_availabilityJson = Some ''[9,17]'',
           p_createdAt = 1100\<rparr>, astra],
       ScheduleSuggestions = [window1, window2]\<rparr>) \<and>
   (\<exists>p \<in> set (ScheduleParticipants db0). p_id p = ''p1'' \<and> p_scheduleId p = ''s1'') \<and>
   upsertSuggestion
     \<lparr>ug_id = None, ug_scheduleId = ''s1'', ug_suggestedStartUtc = 9000,
      ug_suggestedEndUtc = 9500, ug_participantsJson = None, ug_score = None,
      ug_notes = None\<rparr> (signed_in ''alice'') env0 db0 =
     (Inr [window1,
           \<lparr>g_id = ''u1'', g_scheduleId = ''s1'', g_suggestedStartUtc = 9000,
            g_suggestedEndUtc = 9500, g_participantsJson = None, g_score = None,
            g_notes = None, g_createdAt = 2000\<rparr>],
      \<lparr>Schedules = [alice_schedule\<lparr>s_updatedAt := 2001\<rparr>, bob_schedule],
       ScheduleParticipants = [karthik, astra],
       ScheduleSuggestions =
         [window1, window2,
          \<lparr>g_id = ''u1'', g_scheduleId = ''s1'', g_suggestedStartUtc = 9000,
           g_suggestedEndUtc = 9500, g_participantsJson = None, g_score = None,
           g_notes = None, g_createdAt = 2000\<rparr>]\<rparr>) \<and>
   randomUUID env0 \<notin> g_id ` set (ScheduleSuggestions db0) \<and>
   upsertSuggestion
     \<lparr>ug_id = Some ''g1'', ug_scheduleId = ''s1'', ug_suggestedStartUtc = 5500,
      ug_suggestedEndUtc = 6500, ug_participantsJson = Some ''[1]'', ug_score = Some 80,
      ug_notes = Some ''late''\<rparr> (signed_in ''alice'') env0 db0 =
     (Inr [\<lparr>g_id = ''g1'', g_scheduleId = ''s1'', g_suggestedStartUtc = 5500,
            g_suggestedEndUtc = 6500, g_participantsJson = Some ''[1]'', g_score = Some 80,
            g_notes = Some ''late'', g_createdAt = 1200\<rparr>],
      \<lparr>Schedules = [alice_schedule\<lparr>s_updatedAt := 2001\<rparr>, bob_schedule],
       ScheduleParticipants = [karthik, astra],
       ScheduleSuggestions =
         [\<lparr>g_id = ''g1'', g_scheduleId = ''s1'', g_suggestedStartUtc = 5500,
           g_suggestedEndUtc = 6500, g_participantsJson = Some ''[1]'', g_score = Some 80,
           g_notes = Some ''late'', g_createdAt = 1200\<rparr>, window2]\<rparr>) \<and>
   (\<exists>g \<in> set (ScheduleSuggestions db0). g_id g = ''g1'' \<and> g_scheduleId g = ''s1'')"
proof -
  let ?pc = "\<lparr>up_id = None, up_scheduleId = ''s1'', up_name = ''Eve'', up_timeZone = ''UTC'',
              up_availabilityJson = None\<rparr>"
  let ?pu = "\<lparr>up_id = Some ''p1'', up_scheduleId = ''s1'', up_name = ''Karthik S'',
              up_timeZone = ''Asia/Kolkata'', up_availabilityJson = Some ''[9,17]''\<rparr>"
  let ?gc = "\<lparr>ug_id = None, ug_scheduleId = ''s1'', ug_suggestedStartUtc = 9000,
              ug_suggestedEndUtc = 9500, ug_participantsJson = None, ug_score = None,
              ug_notes = None\<rparr>"
  let ?gu = "\<lparr>ug_id = Some ''g1'', ug_scheduleId = ''s1'', ug_suggestedStartUtc = 5500,
              ug_suggestedEndUtc = 6500, ug_participantsJson = Some ''[1]'', ug_score = Some 80,
              ug_notes = Some ''late''\<rparr>"
  have okPc: "upsertParticipant ?pc (signed_in ''alice'') env0 db0 =
     (Inr [karthik,
           \<lparr>p_id = ''u1'', p_scheduleId = ''s1'', p_name = ''Eve'', p_timeZone = ''UTC'',
            p_availabilityJson = None, p_createdAt = 2000\<rparr>],
      \<lparr>Schedules = [alice_schedule\<lparr>s_updatedAt := 2001\<rparr>, bob_schedule],
       ScheduleParticipants =
         [karthik, astra,
          \<lparr>p_id = ''u1'', p_scheduleId = ''s1'', p_name = ''Eve'', p_timeZone = ''UTC'',
           p_availabilityJson = None, p_createdAt = 2000\<rparr>],
       ScheduleSuggestions = [window1, window2]\<rparr>)"
    by (simp add: upsertParticipant_def defineAction_def z_object_def
        upsertParticipant_schema_def min1_def upsertParticipant_handler_def requireUser_def
        getOwnedSchedule_def db_select_def upsertParticipant_write_def truthy_def db_insert_def
        participant_values_def touchScheduleUpdatedAt_def db_update_def example_defs)
  have okPu: "upsertParticipant ?pu (signed_in ''alice'') env0 db0 =
     (Inr [\<lparr>p_id = ''p1'', p_scheduleId = ''s1'', p_name = ''Karthik S'',
            p_timeZone = ''Asia/Kolkata'', p_availabilityJson = Some ''[9,17]'',
            p_createdAt = 1100\<rparr>],
      \<lparr>Schedules = [alice_schedule\<lparr>s_updatedAt := 2001\<rparr>, bob_schedule],
       ScheduleParticipants =
         [\<lparr>p_id = ''p1'', p_scheduleId = ''s1'', p_name = ''Karthik S'',
           p_timeZone = ''Asia/Kolkata'', p_availabilityJson = Some ''[9,17]'',
           p_createdAt = 1100\<rparr>, astra],
       ScheduleSuggestions = [window1, window2]\<rparr>)"
    by (simp add: upsertParticipant_def defineAction_def z_object_def
        upsertParticipant_schema_def min1_def upsertParticipant_handler_def requireUser_def
        getOwnedSchedule_def db_select_def upsertParticipant_write_def truthy_def first_row_def
        participant_set_def set_optional_def touchScheduleUpdatedAt_def db_update_def
        example_defs)
  have okGc: "upsertSuggestion ?gc (signed_in ''alice'') env0 db0 =
     (Inr [window1,
           \<lparr>g_id = ''u1'', g_scheduleId = ''s1'', g_suggestedStartUtc = 9000,
            g_suggestedEndUtc = 9500, g_participantsJson = None, g_score = None,
            g_notes = None, g_createdAt = 2000\<rparr>],
      \<lparr>Schedules = [alice_schedule\<lparr>s_updatedAt := 2001\<rparr>, bob_schedule],
       ScheduleParticipants = [karthik, astra],
       ScheduleSuggestions =
         [window1, window2,
          \<lparr>g_id = ''u1'', g_scheduleId = ''s1'', g_suggestedStartUtc = 9000,
           g_suggestedEndUtc = 9500, g_participantsJson = None, g_score = None,
           g_notes = None, g_createdAt = 2000\<rparr>]\<rparr>)"
    by (simp add: upsertSuggestion_def defineAction_def z_object_def
        upsertSuggestion_schema_def min1_def optional_def upsertSuggestion_handler_def
        requireUser_def getOwnedSchedule_def db_select_def upsertSuggestion_write_def
        truthy_def db_insert_def suggestion_values_def touchScheduleUpdatedAt_def
        db_update_def example_defs)
  have okGu: "upsertSuggestion ?gu (signed_in ''alice'') env0 db0 =
     (Inr [\<lparr>g_id = ''g1'', g_scheduleId = ''s1'', g_suggestedStartUtc = 5500,
            g_suggestedEndUtc = 6500, g_participantsJson = Some ''[1]'', g_score = Some 80,
            g_notes = Some ''late'', g_createdAt = 1200\<rparr>],
      \<lparr>Schedules = [alice_schedule\<lparr>s_updatedAt := 2001\<rparr>, bob_schedule],
       ScheduleParticipants = [karthik, astra],
       ScheduleSuggestions =
         [\<lparr>g_id = ''g1'', g_scheduleId = ''s1'', g_suggestedStartUtc = 5500,
           g_suggestedEndUtc = 6500, g_participantsJson = Some ''[1]'', g_score = Some 80,
           g_notes = Some ''late'', g_createdAt = 1200\<rparr>, window2]\<rparr>)"
    by (simp add: upsertSuggestion_def defineAction_def z_object_def
        upsertSuggestion_schema_def min1_def optional_def score_ok_def isInteger_def
        upsertSuggestion_handler_def requireUser_def
        getOwnedSchedule_def db_select_def upsertSuggestion_write_def truthy_def first_row_def
        suggestion_set_def set_optional_def touchScheduleUpdatedAt_def db_update_def
        example_defs)
  have freshP: "randomUUID env0 \<notin> p_id ` set (ScheduleParticipants db0)"
    using upsert_creates_or_updates_in_place
      [THEN conjunct1, THEN mp, OF okPc, THEN conjunct1]
    by simp
  have foundP: "\<exists>p \<in> set (ScheduleParticipants db0). p_id p = ''p1'' \<and> p_scheduleId p = ''s1''"
    using upsert_creates_or_updates_in_place
      [THEN conjunct1, THEN mp, OF okPu, THEN conjunct2, THEN conjunct1, THEN spec, of "''p1''"]
    by simp
  have freshG: "randomUUID env0 \<notin> g_id ` set (ScheduleSuggestions db0)"
    using upsert_creates_or_updates_in_place
      [THEN conjunct2, THEN mp, OF okGc, THEN conjunct1]
    by simp
  have foundG: "\<exists>g \<in> set (ScheduleSuggestions db0). g_id g = ''g1'' \<and> g_scheduleId g = ''s1''"
    using upsert_creates_or_updates_in_place
      [THEN conjunct2, THEN mp, OF okGu, THEN conjunct2, THEN conjunct1, THEN spec, of "''g1''"]
    by simp
  from okPc freshP okPu foundP okGc freshG okGu foundG show ?thesis
    by (intro conjI)
qed

section \<open>Freshness touch\<close>

lemma found_after_touch:
  assumes "getOwnedSchedule sid uid d = Inr s" "Schedules d1 = Schedules d"
  shows "\<exists>x \<in> set (Schedules (touchScheduleUpdatedAt sid now d1)).
           s_id x = sid \<and> s_updatedAt x = now"
proof -
  from getOwnedSchedule_found [OF assms(1)] have "s \<in> set (Schedules d)" "s_id s = sid"
    by simp_all
  then have "s\<lparr>s_updatedAt := now\<rparr> \<in> set (Schedules (touchScheduleUpdatedAt sid now d1))"
    by (force simp: assms(2))
  then show ?thesis
    using \<open>s_id s = sid\<close> by (intro bexI [of _ "s\<lparr>s_updatedAt := now\<rparr>"]) simp_all
qed

lemma write_keeps_schedules:
  "upsertParticipant_write ip e d = Inr d1 \<Longrightarrow> Schedules d1 = Schedules d"
  "upsertSuggestion_write ig e d = Inr d2 \<Longrightarrow> Schedules d2 = Schedules d"
  by (auto simp: upsertParticipant_write_def upsertSuggestion_write_def Let_def
      split: option.splits sum.splits)

text \<open>
  Claim C5, as amended. The touch writes the time it reads into updatedAt of the
  schedule rows with the given id and changes nothing else: every other field of those
  rows, every other schedule row, and the two child tables are as before. Every
  successful participant or suggestion create, update or delete leaves the Schedules
  table exactly as the touch of the parent at that time leaves it, and the parent is a
  row of it whose updatedAt is that time. So the parent's updatedAt is strictly greater
  than before exactly when the time read by the touch is later than the stored value.
\<close>

theorem child_mutation_touches_parent:
  "list_all2 (\<lambda>old new. new = (if s_id old = sid then old\<lparr>s_updatedAt := now\<rparr> else old))
     (Schedules d0) (Schedules (touchScheduleUpdatedAt sid now d0)) \<and>
   ScheduleParticipants (touchScheduleUpdatedAt sid now d0) = ScheduleParticipants d0 \<and>
   ScheduleSuggestions (touchScheduleUpdatedAt sid now d0) = ScheduleSuggestions d0 \<and>
   (upsertParticipant ip ctx e d = (Inr rp, dp) \<longrightarrow>
      Schedules dp = Schedules (touchScheduleUpdatedAt (up_scheduleId ip) (new_Date_touch e) d) \<and>
      (\<exists>s \<in> set (Schedules dp). s_id s = up_scheduleId ip \<and> s_updatedAt s = new_Date_touch e)) \<and>
   (deleteParticipant jp ctx e d = (Inr (), dq) \<longrightarrow>
      Schedules dq = Schedules (touchScheduleUpdatedAt (dp_scheduleId jp) (new_Date_touch e) d) \<and>
      (\<exists>s \<in> set (Schedules dq). s_id s = dp_scheduleId jp \<and> s_updatedAt s = new_Date_touch e)) \<and>
   (upsertSuggestion ig ctx e d = (Inr rg, dg) \<longrightarrow>
      Schedules dg = Schedules (touchScheduleUpdatedAt (ug_scheduleId ig) (new_Date_touch e) d) \<and>
      (\<exists>s \<in> set (Schedules dg). s_id s = ug_scheduleId ig \<and> s_updatedAt s = new_Date_touch e)) \<and>
   (deleteSuggestion jg ctx e d = (Inr (), dh) \<longrightarrow>
      Schedules dh = Schedules (touchScheduleUpdatedAt (dg_scheduleId jg) (new_Date_touch e) d) \<and>
      (\<exists>s \<in> set (Schedules dh). s_id s = dg_scheduleId jg \<and> s_updatedAt s = new_Date_touch e))"
proof -
  have t: "list_all2 (\<lambda>old new. new = (if s_id old = sid then old\<lparr>s_updatedAt := now\<rparr> else old))
     (Schedules d0) (Schedules (touchScheduleUpdatedAt sid now d0))"
    by (simp add: list_all2_map2 list_all2_same)
  have a: "upsertParticipant ip ctx e d = (Inr rp, dp) \<longrightarrow>
      Schedules dp = Schedules (touchScheduleUpdatedAt (up_scheduleId ip) (new_Date_touch e) d) \<and>
      (\<exists>s \<in> set (Schedules dp). s_id s = up_scheduleId ip \<and> s_updatedAt s = new_Date_touch e)"
  proof
    assume ok: "upsertParticipant ip ctx e d = (Inr rp, dp)"
    from upsertParticipant_success [OF ok] obtain usr :: user and s d1 where
      g: "getOwnedSchedule (up_scheduleId ip) (user_id usr) d = Inr s" and
      w: "upsertParticipant_write ip e d = Inr d1" and
      dp: "dp = touchScheduleUpdatedAt (up_scheduleId ip) (new_Date_touch e) d1"
      by (elim exE conjE) (rule that)
    have k: "Schedules d1 = Schedules d" using write_keeps_schedules(1) [OF w] .
    show "Schedules dp = Schedules (touchScheduleUpdatedAt (up_scheduleId ip) (new_Date_touch e) d) \<and>
      (\<exists>s \<in> set (Schedules dp). s_id s = up_scheduleId ip \<and> s_updatedAt s = new_Date_touch e)"
      using found_after_touch [OF g k] by (simp add: dp k)
  qed
  have b: "deleteParticipant jp ctx e d = (Inr (), dq) \<longrightarrow>
      Schedules dq = Schedules (touchScheduleUpdatedAt (dp_scheduleId jp) (new_Date_touch e) d) \<and>
      (\<exists>s \<in> set (Schedules dq). s_id s = dp_scheduleId jp \<and> s_updatedAt s = new_Date_touch e)"
  proof
    assume ok: "deleteParticipant jp ctx e d = (Inr (), dq)"
    from deleteParticipant_success [OF ok] obtain usr :: user and s where
      g: "getOwnedSchedule (dp_scheduleId jp) (user_id usr) d = Inr s" and
      dq: "dq = touchScheduleUpdatedAt (dp_scheduleId jp) (new_Date_touch e)
                  (d\<lparr>ScheduleParticipants :=
                       filter (\<lambda>p. \<not> (p_id p = dp_participantId jp \<and>
                                       p_scheduleId p = dp_scheduleId jp))
                         (ScheduleParticipants d)\<rparr>)"
      by (elim exE conjE bexE) (rule that)
    show "Schedules dq = Schedules (touchScheduleUpdatedAt (dp_scheduleId jp) (new_Date_touch e) d) \<and>
      (\<exists>s \<in> set (Schedules dq). s_id s = dp_scheduleId jp \<and> s_updatedAt s = new_Date_touch e)"
      using found_after_touch [OF g, of "d\<lparr>ScheduleParticipants :=
                       filter (\<lambda>p. \<not> (p_id p = dp_participantId jp \<and>
                                       p_scheduleId p = dp_scheduleId jp))
                         (ScheduleParticipants d)\<rparr>" "new_Date_touch e"]
      by (simp add: dq)
  qed
  have c: "upsertSuggestion ig ctx e d = (Inr rg, dg) \<longrightarrow>
      Schedules dg = Schedules (touchScheduleUpdatedAt (ug_scheduleId ig) (new_Date_touch e) d) \<and>
      (\<exists>s \<in> set (Schedules dg). s_id s = ug_scheduleId ig \<and> s_updatedAt s = new_Date_touch e)"
  proof
    assume ok: "upsertSuggestion ig ctx e d = (Inr rg, dg)"
    from upsertSuggestion_success [OF ok] obtain usr :: user and s d1 where
      g: "getOwnedSchedule (ug_scheduleId ig) (user_id usr) d = Inr s" and
      w: "upsertSuggestion_write ig e d = Inr d1" and
      dg: "dg = touchScheduleUpdatedAt (ug_scheduleId ig) (new_Date_touch e) d1"
      by (elim exE conjE) (rule that)
    have k: "Schedules d1 = Schedules d" using write_keeps_schedules(2) [OF w] .
    show "Schedules dg = Schedules (touchScheduleUpdatedAt (ug_scheduleId ig) (new_Date_touch e) d) \<and>
      (\<exists>s \<in> set (Schedules dg). s_id s = ug_scheduleId ig \<and> s_updatedAt s = new_Date_touch e)"
      using found_after_touch [OF g k] by (simp add: dg k)
  qed
  have dd: "deleteSuggestion jg ctx e d = (Inr (), dh) \<longrightarrow>
      Schedules dh = Schedules (touchScheduleUpdatedAt (dg_scheduleId jg) (new_Date_touch e) d) \<and>
      (\<exists>s \<in> set (Schedules dh). s_id s = dg_scheduleId jg \<and> s_updatedAt s = new_Date_touch e)"
  proof
    assume ok: "deleteSuggestion jg ctx e d = (Inr (), dh)"
    from deleteSuggestion_success [OF ok] obtain usr :: user and s where
      g: "getOwnedSchedule (dg_scheduleId jg) (user_id usr) d = Inr s" and
      dh: "dh = touchScheduleUpdatedAt (dg_scheduleId jg) (new_Date_touch e)
                  (d\<lparr>ScheduleSuggestions :=
                       filter (\<lambda>g. \<not> (g_id g = dg_suggestionId jg \<and>
                                       g_scheduleId g = dg_scheduleId jg))
                         (ScheduleSuggestions d)\<rparr>)"
      by (elim exE conjE bexE) (rule that)
    show "Schedules dh = Schedules (touchScheduleUpdatedAt (dg_scheduleId jg) (new_Date_touch e) d) \<and>
      (\<exists>s \<in> set (Schedules dh). s_id s = dg_scheduleId jg \<and> s_updatedAt s = new_Date_touch e)"
      using found_after_touch [OF g, of "d\<lparr>ScheduleSuggestions :=
                       filter (\<lambda>g. \<not> (g_id g = dg_suggestionId jg \<and>
                                       g_scheduleId g = dg_scheduleId jg))
                         (ScheduleSuggestions d)\<rparr>" "new_Date_touch e"]
      by (simp add: dh)
  qed
  have u: "ScheduleParticipants (touchScheduleUpdatedAt sid now d0) = ScheduleParticipants d0"
    "ScheduleSuggestions (touchScheduleUpdatedAt sid now d0) = ScheduleSuggestions d0"
    by simp_all
  show ?thesis
    using t u a b c dd by (intro conjI)
qed


text \<open>
  Alice removes the participant p1 of her schedule s1; the touch reads the time 2001.
\<close>

theorem child_mutation_touches_parent_witness:
  "deleteParticipant \<lparr>dp_scheduleId = ''s1'', dp_participantId = ''p1''\<rparr>
     (signed_in ''alice'') env0 db0 =
     (Inr (), \<lparr>Schedules = [alice_schedule\<lparr>s_updatedAt := 2001\<rparr>, bob_schedule],
               ScheduleParticipants = [astra],
               ScheduleSuggestions = [window1, window2]\<rparr>) \<and>
   Schedules (touchScheduleUpdatedAt ''s1'' 2001 db0) =
     [alice_schedule\<lparr>s_updatedAt := 2001\<rparr>, bob_schedule] \<and>
   s_updatedAt alice_schedule < 2001"
proof -
  have ok: "deleteParticipant \<lparr>dp_scheduleId = ''s1'', dp_participantId = ''p1''\<rparr>
     (signed_in ''alice'') env0 db0 =
     (Inr (), \<lparr>Schedules = [alice_schedule\<lparr>s_updatedAt := 2001\<rparr>, bob_schedule],
               ScheduleParticipants = [astra],
               ScheduleSuggestions = [window1, window2]\<rparr>)"
    by (simp add: deleteParticipant_def defineAction_def z_object_def
        deleteParticipant_schema_def min1_def deleteParticipant_handler_def requireUser_def
        getOwnedSchedule_def db_select_def first_row_def db_delete_def
        touchScheduleUpdatedAt_def db_update_def example_defs)
  show ?thesis
    using ok child_mutation_touches_parent [where d = db0 and ctx = "signed_in ''alice''"
        and e = env0 and jp = "\<lparr>dp_scheduleId = ''s1'', dp_participantId = ''p1''\<rparr>"
        and dq = "\<lparr>Schedules = [alice_schedule\<lparr>s_updatedAt := 2001\<rparr>, bob_schedule],
               ScheduleParticipants = [astra],
               ScheduleSuggestions = [window1, window2]\<rparr>"]
    by (simp add: env0_def alice_schedule_def)
qed

text \<open>
  Claim C5 as stated fails when the touch reads the same millisecond as the stored
  updatedAt. Alice's schedule s1 was last stamped at time 1000; she adds a participant and
  the touch reads the time 1000: the call succeeds and the schedule row is as it was, so
  its updatedAt is not strictly greater than before.
\<close>

theorem touch_same_millisecond_counterexample:
  "s_updatedAt (hd (Schedules db0)) = 1000 \<and>
   upsertParticipant
     \<lparr>up_id = None, up_scheduleId = ''s1'', up_name = ''Eve'', up_timeZone = ''UTC'',
      up_availabilityJson = None\<rparr> (signed_in ''alice'')
     \<lparr>randomUUID = ''u1'', new_Date = 1000, new_Date_touch = 1000\<rparr> db0 =
     (Inr [karthik,
           \<lparr>p_id = ''u1'', p_scheduleId = ''s1'', p_name = ''Eve'', p_timeZone = ''UTC'',
            p_availabilityJson = None, p_createdAt = 1000\<rparr>],
      \<lparr>Schedules = [alice_schedule, bob_schedule],
       ScheduleParticipants =
         [karthik, astra,
          \<lparr>p_id = ''u1'', p_scheduleId = ''s1'', p_name = ''Eve'', p_timeZone = ''UTC'',
           p_availabilityJson = None, p_createdAt = 1000\<rparr>],
       ScheduleSuggestions = [window1, window2]\<rparr>) \<and>
   \<not> s_updatedAt (hd (Schedules db0)) <
     s_updatedAt (hd (Schedules (snd (upsertParticipant
       \<lparr>up_id = None, up_scheduleId = ''s1'', up_name = ''Eve'', up_timeZone = ''UTC'',
        up_availabilityJson = None\<rparr> (signed_in ''alice'')
       \<lparr>randomUUID = ''u1'', new_Date = 1000, new_Date_touch = 1000\<rparr> db0))))"
  by (simp add: upsertParticipant_def defineAction_def z_object_def upsertParticipant_schema_def
      min1_def upsertParticipant_handler_def requireUser_def getOwnedSchedule_def db_select_def
      upsertParticipant_write_def truthy_def db_insert_def participant_values_def
      touchScheduleUpdatedAt_def db_update_def example_defs)

section \<open>Input validation of upsertSuggestion\<close>

lemma isInteger_iff: "isInteger x \<longleftrightarrow> x \<in> \<int>"
  by (auto simp: isInteger_def Ints_def)

text \<open>
  Claim C6. When suggestedEndUtc is not after suggestedStartUtc, or a score is given
  that is below 0, above 100 or not an integer, upsertSuggestion fails with the input
  error of the schema, whoever calls it and whatever the store holds, and the store is
  unchanged: the handler, and with it every store statement, is never reached.
\<close>

theorem upsertSuggestion_rejects_bad_input:
  assumes "ug_suggestedEndUtc i \<le> ug_suggestedStartUtc i \<or>
           (\<exists>x. ug_score i = Some x \<and> (x < 0 \<or> 100 < x \<or> x \<notin> \<int>))"
  shows "upsertSuggestion i ctx e d = (Inl ActionInputError, d)"
proof -
  have "\<not> upsertSuggestion_schema i"
    using assms
    by (auto simp: upsertSuggestion_schema_def optional_def score_ok_def isInteger_iff)
  then show ?thesis
    by (simp add: upsertSuggestion_def defineAction_def z_object_def)
qed

theorem upsertSuggestion_rejects_bad_input_witness:
  "upsertSuggestion
     \<lparr>ug_id = None, ug_scheduleId = ''s1'', ug_suggestedStartUtc = 6000,
      ug_suggestedEndUtc = 6000, ug_participantsJson = None, ug_score = None,
      ug_notes = None\<rparr> (signed_in ''alice'') env0 db0 = (Inl ActionInputError, db0) \<and>
   upsertSuggestion
     \<lparr>ug_id = None, ug_scheduleId = ''s1'', ug_suggestedStartUtc = 5000,
      ug_suggestedEndUtc = 6000, ug_participantsJson = None, ug_score = Some 101,
      ug_notes = None\<rparr> (signed_in ''alice'') env0 db0 = (Inl ActionInputError, db0) \<and>
   upsertSuggestion
     \<lparr>ug_id = None, ug_scheduleId = ''s1'', ug_suggestedStartUtc = 5000,
      ug_suggestedEndUtc = 6000, ug_participantsJson = None, ug_score = Some (-1),
      ug_notes = None\<rparr> (signed_in ''alice'') env0 db0 = (Inl ActionInputError, db0) \<and>
   upsertSuggestion
     \<lparr>ug_id = None, ug_scheduleId = ''s1'', ug_suggestedStartUtc = 5000,
      ug_suggestedEndUtc = 6000, ug_participantsJson = None, ug_score = Some (1 / 2),
      ug_notes = None\<rparr> (signed_in ''alice'') env0 db0 = (Inl ActionInputError, db0)"
proof -
  have half: "(1 / 2 :: rat) \<notin> \<int>"
  proof
    assume "(1 / 2 :: rat) \<in> \<int>"
    then obtain k :: int where "(1 / 2 :: rat) = of_int k" by (auto elim: Ints_cases)
    then have "(1 :: rat) = of_int (2 * k)" by simp
    then have "(1 :: int) = 2 * k" by (metis of_int_1 of_int_eq_iff)
    then show False by presburger
  qed
  have a: "upsertSuggestion
     \<lparr>ug_id = None, ug_scheduleId = ''s1'', ug_suggestedStartUtc = 6000,
      ug_suggestedEndUtc = 6000, ug_participantsJson = None, ug_score = None,
      ug_notes = None\<rparr> (signed_in ''alice'') env0 db0 = (Inl ActionInputError, db0)"
    by (rule upsertSuggestion_rejects_bad_input) simp
  have b: "upsertSuggestion
     \<lparr>ug_id = None, ug_scheduleId = ''s1'', ug_suggestedStartUtc = 5000,
      ug_suggestedEndUtc = 6000, ug_participantsJson = None, ug_score = Some 101,
      ug_notes = None\<rparr> (signed_in ''alice'') env0 db0 = (Inl ActionInputError, db0)"
    by (rule upsertSuggestion_rejects_bad_input) simp
  have c: "upsertSuggestion
     \<lparr>ug_id = None, ug_scheduleId = ''s1'', ug_suggestedStartUtc = 5000,
      ug_suggestedEndUtc = 6000, ug_participantsJson = None, ug_score = Some (-1),
      ug_notes = None\<rparr> (signed_in ''alice'') env0 db0 = (Inl ActionInputError, db0)"
    by (rule upsertSuggestion_rejects_bad_input) simp
  have d: "upsertSuggestion
     \<lparr>ug_id = None, ug_scheduleId = ''s1'', ug_suggestedStartUtc = 5000,
      ug_suggestedEndUtc = 6000, ug_participantsJson = None, ug_score = Some (1 / 2),
      ug_notes = None\<rparr> (signed_in ''alice'') env0 db0 = (Inl ActionInputError, db0)"
    using half by (intro upsertSuggestion_rejects_bad_input disjI2 exI [of _ "1 / 2"]) simp
  from a b c d show ?thesis by (intro conjI)
qed

section \<open>updateSchedule\<close>

lemma select_after_update:
  assumes "\<And>r. wh r \<Longrightarrow> wh (st r)"
  shows "db_select wh (db_update st wh rows) = map st (db_select wh rows)"
  using assms by (induction rows) (auto simp: db_select_def db_update_def)

lemma updateData_row:
  "updateData i now s =
     \<lparr>s_id = s_id s, s_ownerUserId = s_ownerUserId s,
      s_name = (case us_name i of None \<Rightarrow> s_name s | Some v \<Rightarrow> v),
      s_description = (case us_description i of None \<Rightarrow> s_description s | Some v \<Rightarrow> Some v),
      s_baseTimeZone = (case us_baseTimeZone i of None \<Rightarrow> s_baseTimeZone s | Some v \<Rightarrow> Some v),
      s_durationMinutes =
        (case us_durationMinutes i of None \<Rightarrow> s_durationMinutes s | Some v \<Rightarrow> Some v),
      s_createdAt = s_createdAt s, s_updatedAt = now\<rparr>"
  by (cases s) (simp add: updateData_def set_required_def set_optional_def split: option.splits)

lemma updateSchedule_success:
  assumes "updateSchedule i ctx e d = (Inr r, d')"
  shows "\<exists>usr s. locals_user ctx = Some usr \<and> updateSchedule_schema i \<and>
           getOwnedSchedule (us_id i) (user_id usr) d = Inr s \<and>
           d' = d\<lparr>Schedules :=
                   db_update (updateData i (new_Date e))
                     (\<lambda>x. s_id x = us_id i \<and> s_ownerUserId x = user_id usr) (Schedules d)\<rparr> \<and>
           r = first_row
                 (db_select (\<lambda>x. s_id x = us_id i \<and> s_ownerUserId x = user_id usr)
                    (Schedules d'))"
  using assms
  by (auto simp: updateSchedule_def defineAction_def z_object_def updateSchedule_handler_def
      requireUser_def Let_def split: option.splits sum.splits if_splits)

lemma getOwnedSchedule_first:
  "getOwnedSchedule sid uid d = Inr s \<Longrightarrow>
   first_row (db_select (\<lambda>x. s_id x = sid \<and> s_ownerUserId x = uid) (Schedules d)) = Some s"
  by (auto simp: getOwnedSchedule_def first_row_def split: list.splits)

text \<open>
  Claim C8. After a successful updateSchedule, each schedule row with the given id and
  the caller as owner has the supplied values in the supplied fields among name,
  description, baseTimeZone and durationMinutes, the time read by the handler in
  updatedAt, and its old value in every other field, id, ownerUserId and createdAt
  included; every other row of every table is unchanged. The record returned is the
  first row that the select by id and owner reads from the store after the write, and
  it is the row the ownership guard had found, updated in this way.
\<close>

theorem updateSchedule_writes_supplied_fields:
  assumes ok: "updateSchedule i ctx e d = (Inr r, d')"
  shows "\<exists>usr s.
           locals_user ctx = Some usr \<and>
           getOwnedSchedule (us_id i) (user_id usr) d = Inr s \<and>
           list_all2
             (\<lambda>old new.
                new = (if s_id old = us_id i \<and> s_ownerUserId old = user_id usr
                       then \<lparr>s_id = s_id old, s_ownerUserId = s_ownerUserId old,
                             s_name = (case us_name i of None \<Rightarrow> s_name old | Some v \<Rightarrow> v),
                             s_description =
                               (case us_description i of
                                  None \<Rightarrow> s_description old | Some v \<Rightarrow> Some v),
                             s_baseTimeZone =
                               (case us_baseTimeZone i of
                                  None \<Rightarrow> s_baseTimeZone old | Some v \<Rightarrow> Some v),
                             s_durationMinutes =
                               (case us_durationMinutes i of
                                  None \<Rightarrow> s_durationMinutes old | Some v \<Rightarrow> Some v),
                             s_createdAt = s_createdAt old, s_updatedAt = new_Date e\<rparr>
                       else old))
             (Schedules d) (Schedules d') \<and>
           ScheduleParticipants d' = ScheduleParticipants d \<and>
           ScheduleSuggestions d' = ScheduleSuggestions d \<and>
           r = first_row
                 (db_select (\<lambda>x. s_id x = us_id i \<and> s_ownerUserId x = user_id usr)
                    (Schedules d')) \<and>
           r = Some \<lparr>s_id = s_id s, s_ownerUserId = s_ownerUserId s,
                     s_name = (case us_name i of None \<Rightarrow> s_name s | Some v \<Rightarrow> v),
                     s_description =
                       (case us_description i of None \<Rightarrow> s_description s | Some v \<Rightarrow> Some v),
                     s_baseTimeZone =
                       (case us_baseTimeZone i of None \<Rightarrow> s_baseTimeZone s | Some v \<Rightarrow> Some v),
                     s_durationMinutes =
                       (case us_durationMinutes i of
                          None \<Rightarrow> s_durationMinutes s | Some v \<Rightarrow> Some v),
                     s_createdAt = s_createdAt s, s_updatedAt = new_Date e\<rparr>"
proof -
  from updateSchedule_success [OF ok] obtain usr :: user and s where
    u: "locals_user ctx = Some usr" and
    g: "getOwnedSchedule (us_id i) (user_id usr) d = Inr s" and
    d': "d' = d\<lparr>Schedules :=
                   db_update (updateData i (new_Date e))
                     (\<lambda>x. s_id x = us_id i \<and> s_ownerUserId x = user_id usr) (Schedules d)\<rparr>" and
    r: "r = first_row
                 (db_select (\<lambda>x. s_id x = us_id i \<and> s_ownerUserId x = user_id usr)
                    (Schedules d'))"
    by (elim exE conjE) (rule that)
  have keep: "\<And>x. s_id x = us_id i \<and> s_ownerUserId x = user_id usr \<Longrightarrow>
                 s_id (updateData i (new_Date e) x) = us_id i \<and>
                 s_ownerUserId (updateData i (new_Date e) x) = user_id usr"
    by (simp add: updateData_def)
  have sel: "db_select (\<lambda>x. s_id x = us_id i \<and> s_ownerUserId x = user_id usr) (Schedules d') =
             map (updateData i (new_Date e))
               (db_select (\<lambda>x. s_id x = us_id i \<and> s_ownerUserId x = user_id usr) (Schedules d))"
    using select_after_update [of "\<lambda>x. s_id x = us_id i \<and> s_ownerUserId x = user_id usr"
        "updateData i (new_Date e)" "Schedules d"] keep
    by (simp add: d')
  from getOwnedSchedule_first [OF g] obtain rest where
    "db_select (\<lambda>x. s_id x = us_id i \<and> s_ownerUserId x = user_id usr) (Schedules d) = s # rest"
    by (auto simp: first_row_def split: list.splits)
  then have ret: "r = Some (updateData i (new_Date e) s)"
    by (simp add: r sel first_row_def)
  have rows: "list_all2
             (\<lambda>old new.
                new = (if s_id old = us_id i \<and> s_ownerUserId old = user_id usr
                       then updateData i (new_Date e) old else old))
             (Schedules d) (Schedules d')"
    by (simp add: d' db_update_def list_all2_map2 list_all2_same)
  have tabs: "ScheduleParticipants d' = ScheduleParticipants d"
    "ScheduleSuggestions d' = ScheduleSuggestions d"
    by (simp_all add: d')
  show ?thesis
    using u g rows tabs r ret unfolding updateData_row by blast
qed


text \<open>Alice sets the duration of her schedule s1 to 30 minutes at time 2000.\<close>

theorem updateSchedule_writes_supplied_fields_witness:
  "updateSchedule
     \<lparr>us_id = ''s1'', us_name = None, us_description = None, us_baseTimeZone = None,
      us_durationMinutes = Some 30\<rparr> (signed_in ''alice'') env0 db0 =
     (Inr (Some \<lparr>s_id = ''s1'', s_ownerUserId = ''alice'', s_name = ''Team sync'',
                 s_description = None, s_baseTimeZone = Some ''Asia/Dubai'',
                 s_durationMinutes = Some 30, s_createdAt = 1000, s_updatedAt = 2000\<rparr>),
      \<lparr>Schedules =
         [\<lparr>s_id = ''s1'', s_ownerUserId = ''alice'', s_name = ''Team sync'',
           s_description = None, s_baseTimeZone = Some ''Asia/Dubai'',
           s_durationMinutes = Some 30, s_createdAt = 1000, s_updatedAt = 2000\<rparr>,
          bob_schedule],
       ScheduleParticipants = [karthik, astra],
       ScheduleSuggestions = [window1, window2]\<rparr>) \<and>
   getOwnedSchedule ''s1'' ''alice'' db0 = Inr alice_schedule \<and>
   first_row
     (db_select (\<lambda>x. s_id x = ''s1'' \<and> s_ownerUserId x = ''alice'')
        [\<lparr>s_id = ''s1'', s_ownerUserId = ''alice'', s_name = ''Team sync'',
          s_description = None, s_baseTimeZone = Some ''Asia/Dubai'',
          s_durationMinutes = Some 30, s_createdAt = 1000, s_updatedAt = 2000\<rparr>,
         bob_schedule]) =
     Some \<lparr>s_id = ''s1'', s_ownerUserId = ''alice'', s_name = ''Team sync'',
           s_description = None, s_baseTimeZone = Some ''Asia/Dubai'',
           s_durationMinutes = Some 30, s_createdAt = 1000, s_updatedAt = 2000\<rparr>"
proof -
  have ok: "updateSchedule
     \<lparr>us_id = ''s1'', us_name = None, us_description = None, us_baseTimeZone = None,
      us_durationMinutes = Some 30\<rparr> (signed_in ''alice'') env0 db0 =
     (Inr (Some \<lparr>s_id = ''s1'', s_ownerUserId = ''alice'', s_name = ''Team sync'',
                 s_description = None, s_baseTimeZone = Some ''Asia/Dubai'',
                 s_durationMinutes = Some 30, s_createdAt = 1000, s_updatedAt = 2000\<rparr>),
      \<lparr>Schedules =
         [\<lparr>s_id = ''s1'', s_ownerUserId = ''alice'', s_name = ''Team sync'',
           s_description = None, s_baseTimeZone = Some ''Asia/Dubai'',
           s_durationMinutes = Some 30, s_createdAt = 1000, s_updatedAt = 2000\<rparr>,
          bob_schedule],
       ScheduleParticipants = [karthik, astra],
       ScheduleSuggestions = [window1, window2]\<rparr>)"
    by (simp add: updateSchedule_def defineAction_def z_object_def updateSchedule_schema_def
        min1_def optional_def int_positive_def isInteger_def updateSchedule_handler_def
        requireUser_def getOwnedSchedule_def db_select_def db_update_def updateData_def
        set_required_def set_optional_def first_row_def example_defs)
  from updateSchedule_writes_supplied_fields [OF ok] obtain usr :: user and s where
    u: "locals_user (signed_in ''alice'') = Some usr" and
    g: "getOwnedSchedule
          (us_id \<lparr>us_id = ''s1'', us_name = None, us_description = None, us_baseTimeZone = None,
                  us_durationMinutes = Some 30\<rparr>) (user_id usr) db0 = Inr s" and
    rr: "Some \<lparr>s_id = ''s1'', s_ownerUserId = ''alice'', s_name = ''Team sync'',
                 s_description = None, s_baseTimeZone = Some ''Asia/Dubai'',
                 s_durationMinutes = Some 30, s_createdAt = 1000, s_updatedAt = 2000\<rparr> =
         first_row
           (db_select
              (\<lambda>x. s_id x =
                     us_id \<lparr>us_id = ''s1'', us_name = None, us_description = None,
                            us_baseTimeZone = None, us_durationMinutes = Some 30\<rparr> \<and>
                   s_ownerUserId x = user_id usr)
              (Schedules
                 \<lparr>Schedules =
                    [\<lparr>s_id = ''s1'', s_ownerUserId = ''alice'', s_name = ''Team sync'',
                      s_description = None, s_baseTimeZone = Some ''Asia/Dubai'',
                      s_durationMinutes = Some 30, s_createdAt = 1000, s_updatedAt = 2000\<rparr>,
                     bob_schedule],
                  ScheduleParticipants = [karthik, astra],
                  ScheduleSuggestions = [window1, window2]\<rparr>))"
    by (elim exE conjE) (rule that)
  from u have usr: "usr = \<lparr>user_id = ''alice''\<rparr>"
    by (simp add: signed_in_def)
  have own: "getOwnedSchedule ''s1'' ''alice'' db0 = Inr alice_schedule"
    by (simp add: getOwnedSchedule_def db_select_def example_defs)
  from rr usr have reread: "first_row
     (db_select (\<lambda>x. s_id x = ''s1'' \<and> s_ownerUserId x = ''alice'')
        [\<lparr>s_id = ''s1'', s_ownerUserId = ''alice'', s_name = ''Team sync'',
          s_description = None, s_baseTimeZone = Some ''Asia/Dubai'',
          s_durationMinutes = Some 30, s_createdAt = 1000, s_updatedAt = 2000\<rparr>,
         bob_schedule]) =
     Some \<lparr>s_id = ''s1'', s_ownerUserId = ''alice'', s_name = ''Team sync'',
           s_description = None, s_baseTimeZone = Some ''Asia/Dubai'',
           s_durationMinutes = Some 30, s_createdAt = 1000, s_updatedAt = 2000\<rparr>"
    by simp
  from ok own reread show ?thesis by (intro conjI)
qed

section \<open>Upsert with the empty string as id\<close>

lemma truthy_update_None:
  "truthy (up_id ip) = None \<Longrightarrow>
   upsertParticipant_write (ip\<lparr>up_id := None\<rparr>) e d = upsertParticipant_write ip e d"
  "truthy (ug_id ig) = None \<Longrightarrow>
   upsertSuggestion_write (ig\<lparr>ug_id := None\<rparr>) e d = upsertSuggestion_write ig e d"
  by (simp_all add: upsertParticipant_write_def upsertSuggestion_write_def truthy_def
      participant_values_def suggestion_values_def)

text \<open>
  Claim C9. Let the id of the input be the empty string, the other fields well-formed,
  the caller the owner of the target schedule and the generated UUID not yet an id of
  the child table. Then the input passes the schema, and upsertParticipant and
  upsertSuggestion succeed and append one row with the generated UUID as id to the
  child table: they do exactly what they do when the id is absent, and neither look for
  a row to update nor fail with NOT_FOUND.
\<close>

theorem upsert_empty_id_creates:
  assumes caller: "locals_user ctx = Some usr"
    and idP: "up_id ip = Some []"
    and fieldsP: "up_scheduleId ip \<noteq> []" "up_name ip \<noteq> []" "up_timeZone ip \<noteq> []"
    and ownsP: "\<exists>s \<in> set (Schedules d). s_id s = up_scheduleId ip \<and> s_ownerUserId s = user_id usr"
    and freshP: "randomUUID e \<notin> p_id ` set (ScheduleParticipants d)"
    and idG: "ug_id ig = Some []"
    and fieldsG: "ug_scheduleId ig \<noteq> []" "ug_suggestedStartUtc ig < ug_suggestedEndUtc ig"
      "\<forall>x. ug_score ig = Some x \<longrightarrow> x \<in> \<int> \<and> 0 \<le> x \<and> x \<le> 100"
    and ownsG: "\<exists>s \<in> set (Schedules d). s_id s = ug_scheduleId ig \<and> s_ownerUserId s = user_id usr"
    and freshG: "randomUUID e \<notin> g_id ` set (ScheduleSuggestions d)"
  shows "upsertParticipant_schema ip \<and>
         (\<exists>rp dp. upsertParticipant ip ctx e d = (Inr rp, dp) \<and>
            ScheduleParticipants dp =
              ScheduleParticipants d @
                [\<lparr>p_id = randomUUID e, p_scheduleId = up_scheduleId ip, p_name = up_name ip,
                  p_timeZone = up_timeZone ip, p_availabilityJson = up_availabilityJson ip,
                  p_createdAt = new_Date e\<rparr>]) \<and>
         upsertParticipant ip ctx e d = upsertParticipant (ip\<lparr>up_id := None\<rparr>) ctx e d \<and>
         upsertSuggestion_schema ig \<and>
         (\<exists>rg dg. upsertSuggestion ig ctx e d = (Inr rg, dg) \<and>
            ScheduleSuggestions dg =
              ScheduleSuggestions d @
                [\<lparr>g_id = randomUUID e, g_scheduleId = ug_scheduleId ig,
                  g_suggestedStartUtc = ug_suggestedStartUtc ig,
                  g_suggestedEndUtc = ug_suggestedEndUtc ig,
                  g_participantsJson = ug_participantsJson ig, g_score = ug_score ig,
                  g_notes = ug_notes ig, g_createdAt = new_Date e\<rparr>]) \<and>
         upsertSuggestion ig ctx e d = upsertSuggestion (ig\<lparr>ug_id := None\<rparr>) ctx e d"
proof -
  have schP: "upsertParticipant_schema ip"
    using fieldsP by (cases "up_scheduleId ip"; cases "up_name ip"; cases "up_timeZone ip")
      (simp_all add: upsertParticipant_schema_def min1_def)
  have schP': "upsertParticipant_schema (ip\<lparr>up_id := None\<rparr>)"
    using schP by (simp add: upsertParticipant_schema_def)
  have tP: "truthy (up_id ip) = None"
    using idP by (simp add: truthy_None)
  from ownsP obtain s where gP: "getOwnedSchedule (up_scheduleId ip) (user_id usr) d = Inr s"
    using getOwnedSchedule_owned by blast
  have wP: "upsertParticipant_write ip e d =
              Inr (d\<lparr>ScheduleParticipants := ScheduleParticipants d @ [participant_values ip e]\<rparr>)"
    using freshP by (simp add: upsertParticipant_write_insert [OF tP])
  have runP: "\<exists>rp dp. upsertParticipant ip ctx e d = (Inr rp, dp) \<and>
            ScheduleParticipants dp =
              ScheduleParticipants d @
                [\<lparr>p_id = randomUUID e, p_scheduleId = up_scheduleId ip, p_name = up_name ip,
                  p_timeZone = up_timeZone ip, p_availabilityJson = up_availabilityJson ip,
                  p_createdAt = new_Date e\<rparr>]"
    by (simp add: upsertParticipant_run [OF caller schP gP] wP participant_values_def)
  have sameP: "upsertParticipant ip ctx e d = upsertParticipant (ip\<lparr>up_id := None\<rparr>) ctx e d"
    using upsertParticipant_run [OF caller schP gP, of e]
      upsertParticipant_run [OF caller schP', of d s e] gP truthy_update_None(1) [OF tP, of e d]
    by (simp split: sum.splits)
  have schG: "upsertSuggestion_schema ig"
    using fieldsG by (cases "ug_scheduleId ig")
      (auto simp: upsertSuggestion_schema_def min1_def optional_def score_ok_def isInteger_iff
        split: option.splits)
  have schG': "upsertSuggestion_schema (ig\<lparr>ug_id := None\<rparr>)"
    using schG by (simp add: upsertSuggestion_schema_def)
  have tG: "truthy (ug_id ig) = None"
    using idG by (simp add: truthy_None)
  from ownsG obtain s' where gG: "getOwnedSchedule (ug_scheduleId ig) (user_id usr) d = Inr s'"
    using getOwnedSchedule_owned by blast
  have wG: "upsertSuggestion_write ig e d =
              Inr (d\<lparr>ScheduleSuggestions := ScheduleSuggestions d @ [suggestion_values ig e]\<rparr>)"
    using freshG by (simp add: upsertSuggestion_write_insert [OF tG])
  have runG: "\<exists>rg dg. upsertSuggestion ig ctx e d = (Inr rg, dg) \<and>
            ScheduleSuggestions dg =
              ScheduleSuggestions d @
                [\<lparr>g_id = randomUUID e, g_scheduleId = ug_scheduleId ig,
                  g_suggestedStartUtc = ug_suggestedStartUtc ig,
                  g_suggestedEndUtc = ug_suggestedEndUtc ig,
                  g_participantsJson = ug_participantsJson ig, g_score = ug_score ig,
                  g_notes = ug_notes ig, g_createdAt = new_Date e\<rparr>]"
    by (simp add: upsertSuggestion_run [OF caller schG gG] wG suggestion_values_def)
  have sameG: "upsertSuggestion ig ctx e d = upsertSuggestion (ig\<lparr>ug_id := None\<rparr>) ctx e d"
    using upsertSuggestion_run [OF caller schG gG, of e]
      upsertSuggestion_run [OF caller schG', of d s' e] gG truthy_update_None(2) [OF tG, of e d]
    by (simp split: sum.splits)
  from schP runP sameP schG runG sameG show ?thesis by (intro conjI)
qed

text \<open>Alice upserts a participant and a suggestion under her schedule s1 with the id \<open>''''\<close>.\<close>

theorem upsert_empty_id_creates_witness:
  "upsertParticipant
     \<lparr>up_id = Some '''', up_scheduleId = ''s1'', up_name = ''Eve'', up_timeZone = ''UTC'',
      up_availabilityJson = None\<rparr> (signed_in ''alice'') env0 db0 =
   upsertParticipant
     \<lparr>up_id = None, up_scheduleId = ''s1'', up_name = ''Eve'', up_timeZone = ''UTC'',
      up_availabilityJson = None\<rparr> (signed_in ''alice'') env0 db0 \<and>
   upsertSuggestion
     \<lparr>ug_id = Some '''', ug_scheduleId = ''s1'', ug_suggestedStartUtc = 5000,
      ug_suggestedEndUtc = 6000, ug_participantsJson = None, ug_score = Some 70,
      ug_notes = None\<rparr> (signed_in ''alice'') env0 db0 =
   upsertSuggestion
     \<lparr>ug_id = None, ug_scheduleId = ''s1'', ug_suggestedStartUtc = 5000,
      ug_suggestedEndUtc = 6000, ug_participantsJson = None, ug_score = Some 70,
      ug_notes = None\<rparr> (signed_in ''alice'') env0 db0 \<and>
   (\<exists>rp dp. upsertParticipant
     \<lparr>up_id = Some '''', up_scheduleId = ''s1'', up_name = ''Eve'', up_timeZone = ''UTC'',
      up_availabilityJson = None\<rparr> (signed_in ''alice'') env0 db0 = (Inr rp, dp) \<and>
      ScheduleParticipants dp =
        [karthik, astra,
         \<lparr>p_id = ''u1'', p_scheduleId = ''s1'', p_name = ''Eve'', p_timeZone = ''UTC'',
          p_availabilityJson = None, p_createdAt = 2000\<rparr>])"
proof -
  have caller: "locals_user (signed_in ''alice'') = Some \<lparr>user_id = ''alice''\<rparr>"
    by (simp add: signed_in_def)
  let ?ip = "\<lparr>up_id = Some [], up_scheduleId = ''s1'', up_name = ''Eve'',
              up_timeZone = ''UTC'', up_availabilityJson = None\<rparr>"
  let ?ig = "\<lparr>ug_id = Some [], ug_scheduleId = ''s1'', ug_suggestedStartUtc = 5000,
              ug_suggestedEndUtc = 6000, ug_participantsJson = None, ug_score = Some 70,
              ug_notes = None\<rparr>"
  have ownsP: "\<exists>s \<in> set (Schedules db0).
                 s_id s = up_scheduleId ?ip \<and> s_ownerUserId s = user_id \<lparr>user_id = ''alice''\<rparr>"
    by (simp add: example_defs)
  have freshP: "randomUUID env0 \<notin> p_id ` set (ScheduleParticipants db0)"
    by (simp add: example_defs)
  have score: "\<forall>x. ug_score ?ig = Some x \<longrightarrow> x \<in> \<int> \<and> 0 \<le> x \<and> x \<le> 100"
    by simp
  have ownsG: "\<exists>s \<in> set (Schedules db0).
                 s_id s = ug_scheduleId ?ig \<and> s_ownerUserId s = user_id \<lparr>user_id = ''alice''\<rparr>"
    by (simp add: example_defs)
  have freshG: "randomUUID env0 \<notin> g_id ` set (ScheduleSuggestions db0)"
    by (simp add: example_defs)
  have "up_id ?ip = Some []" "up_scheduleId ?ip \<noteq> []" "up_name ?ip \<noteq> []"
    "up_timeZone ?ip \<noteq> []" "ug_id ?ig = Some []" "ug_scheduleId ?ig \<noteq> []"
    "ug_suggestedStartUtc ?ig < ug_suggestedEndUtc ?ig"
    by simp_all
  note th = upsert_empty_id_creates
    [OF caller this(1-4) ownsP freshP this(5-7) score ownsG freshG]
  have A: "\<exists>rp dp. upsertParticipant ?ip (signed_in ''alice'') env0 db0 = (Inr rp, dp) \<and>
      ScheduleParticipants dp =
        [karthik, astra,
         \<lparr>p_id = ''u1'', p_scheduleId = ''s1'', p_name = ''Eve'', p_timeZone = ''UTC'',
          p_availabilityJson = None, p_createdAt = 2000\<rparr>]"
    using th [THEN conjunct2, THEN conjunct1] by (simp add: db0_def env0_def)
  have B: "upsertParticipant ?ip (signed_in ''alice'') env0 db0 =
           upsertParticipant
             \<lparr>up_id = None, up_scheduleId = ''s1'', up_name = ''Eve'', up_timeZone = ''UTC'',
              up_availabilityJson = None\<rparr> (signed_in ''alice'') env0 db0"
    using th [THEN conjunct2, THEN conjunct2, THEN conjunct1] by simp
  have C: "upsertSuggestion ?ig (signed_in ''alice'') env0 db0 =
           upsertSuggestion
             \<lparr>ug_id = None, ug_scheduleId = ''s1'', ug_suggestedStartUtc = 5000,
              ug_suggestedEndUtc = 6000, ug_participantsJson = None, ug_score = Some 70,
              ug_notes = None\<rparr> (signed_in ''alice'') env0 db0"
    using th [THEN conjunct2, THEN conjunct2, THEN conjunct2, THEN conjunct2, THEN conjunct2]
    by simp
  from B C A show ?thesis by (intro conjI)
qed

section \<open>Fields written by an update\<close>

lemma participant_set_row:
  "participant_set i p =
     \<lparr>p_id = p_id p, p_scheduleId = p_scheduleId p, p_name = up_name i,
      p_timeZone = up_timeZone i,
      p_availabilityJson =
        (case up_availabilityJson i of None \<Rightarrow> p_availabilityJson p | Some v \<Rightarrow> Some v),
      p_createdAt = p_createdAt p\<rparr>"
  by (cases p) (simp add: participant_set_def set_optional_def split: option.splits)

lemma suggestion_set_row:
  "suggestion_set i g =
     \<lparr>g_id = g_id g, g_scheduleId = g_scheduleId g,
      g_suggestedStartUtc = ug_suggestedStartUtc i, g_suggestedEndUtc = ug_suggestedEndUtc i,
      g_participantsJson =
        (case ug_participantsJson i of None \<Rightarrow> g_participantsJson g | Some v \<Rightarrow> Some v),
      g_score = (case ug_score i of None \<Rightarrow> g_score g | Some v \<Rightarrow> Some v),
      g_notes = (case ug_notes i of None \<Rightarrow> g_notes g | Some v \<Rightarrow> Some v),
      g_createdAt = g_createdAt g\<rparr>"
  by (cases g) (simp add: suggestion_set_def set_optional_def split: option.splits)

text \<open>
  Claim C10, as amended. After a successful upsert with a non-empty id, the child rows
  with that id under the schedule hold the supplied values in the required fields (name
  and timeZone of a participant, the two dates of a suggestion) and in every optional
  field that the input supplies; an optional field that the input omits
  (availabilityJson; participantsJson, score, notes) keeps the value it had, since
  \<^verbatim>\<open>.set\<close> leaves out a key whose value is \<^verbatim>\<open>undefined\<close>. Every other row is unchanged.
  The participant half and the suggestion half hold independently of each other.
\<close>

theorem upsert_update_keeps_omitted_fields:
  "(upsertParticipant ip ctx e d = (Inr rp, dp) \<and> up_id ip = Some x \<and> x \<noteq> [] \<longrightarrow>
      list_all2
        (\<lambda>old new.
           new = (if p_id old = x \<and> p_scheduleId old = up_scheduleId ip
                  then \<lparr>p_id = p_id old, p_scheduleId = p_scheduleId old,
                        p_name = up_name ip, p_timeZone = up_timeZone ip,
                        p_availabilityJson =
                          (case up_availabilityJson ip of
                             None \<Rightarrow> p_availabilityJson old | Some v \<Rightarrow> Some v),
                        p_createdAt = p_createdAt old\<rparr>
                  else old))
        (ScheduleParticipants d) (ScheduleParticipants dp)) \<and>
   (upsertSuggestion ig cg eg dG = (Inr rg, dg) \<and> ug_id ig = Some y \<and> y \<noteq> [] \<longrightarrow>
      list_all2
        (\<lambda>old new.
           new = (if g_id old = y \<and> g_scheduleId old = ug_scheduleId ig
                  then \<lparr>g_id = g_id old, g_scheduleId = g_scheduleId old,
                        g_suggestedStartUtc = ug_suggestedStartUtc ig,
                        g_suggestedEndUtc = ug_suggestedEndUtc ig,
                        g_participantsJson =
                          (case ug_participantsJson ig of
                             None \<Rightarrow> g_participantsJson old | Some v \<Rightarrow> Some v),
                        g_score = (case ug_score ig of None \<Rightarrow> g_score old | Some v \<Rightarrow> Some v),
                        g_notes = (case ug_notes ig of None \<Rightarrow> g_notes old | Some v \<Rightarrow> Some v),
                        g_createdAt = g_createdAt old\<rparr>
                  else old))
        (ScheduleSuggestions dG) (ScheduleSuggestions dg))"
  (is "(?hP \<longrightarrow> ?cP) \<and> (?hG \<longrightarrow> ?cG)")
proof (rule conjI; rule impI)
  assume h: ?hP
  then have t: "truthy (up_id ip) = Some x"
    by (simp add: truthy_Some)
  from h have ok: "upsertParticipant ip ctx e d = (Inr rp, dp)" by simp
  from participant_update_effect [OF ok t]
  have "ScheduleParticipants dp =
           map (\<lambda>p. if p_id p = x \<and> p_scheduleId p = up_scheduleId ip
                     then participant_set ip p else p) (ScheduleParticipants d)"
    by simp
  then show ?cP
    by (simp add: list_all2_map2 list_all2_same participant_set_row)
next
  assume h: ?hG
  then have t: "truthy (ug_id ig) = Some y"
    by (simp add: truthy_Some)
  from h have ok: "upsertSuggestion ig cg eg dG = (Inr rg, dg)" by simp
  from suggestion_update_effect [OF ok t]
  have "ScheduleSuggestions dg =
           map (\<lambda>g. if g_id g = y \<and> g_scheduleId g = ug_scheduleId ig
                     then suggestion_set ig g else g) (ScheduleSuggestions dG)"
    by simp
  then show ?cG
    by (simp add: list_all2_map2 list_all2_same suggestion_set_row)
qed

text \<open>
  Alice updates her participant p1 by id, omitting availabilityJson, on a store where
  her schedule has no suggestion; and she updates her suggestion g1 by id, supplying a
  score and omitting participantsJson and notes, on a store where her schedule has no
  participant.
\<close>

theorem upsert_update_keeps_omitted_fields_witness:
  "upsertParticipant
     \<lparr>up_id = Some ''p1'', up_scheduleId = ''s1'', up_name = ''Karthik S'',
      up_timeZone = ''Asia/Kolkata'', up_availabilityJson = None\<rparr>
     (signed_in ''alice'') env0 (db0\<lparr>ScheduleSuggestions := [window2]\<rparr>) =
     (Inr [\<lparr>p_id = ''p1'', p_scheduleId = ''s1'', p_name = ''Karthik S'',
            p_timeZone = ''Asia/Kolkata'', p_availabilityJson = Some ''{}'',
            p_createdAt = 1100\<rparr>],
      \<lparr>Schedules = [alice_schedule\<lparr>s_updatedAt := 2001\<rparr>, bob_schedule],
       ScheduleParticipants =
         [\<lparr>p_id = ''p1'', p_scheduleId = ''s1'', p_name = ''Karthik S'',
           p_timeZone = ''Asia/Kolkata'', p_availabilityJson = Some ''{}'',
           p_createdAt = 1100\<rparr>, astra],
       ScheduleSuggestions = [window2]\<rparr>) \<and>
   list_all2
     (\<lambda>old new.
        new = (if p_id old = ''p1'' \<and> p_scheduleId old = ''s1''
               then \<lparr>p_id = p_id old, p_scheduleId = p_scheduleId old,
                     p_name = ''Karthik S'', p_timeZone = ''Asia/Kolkata'',
                     p_availabilityJson = p_availabilityJson old,
                     p_createdAt = p_createdAt old\<rparr>
               else old))
     [karthik, astra]
     [\<lparr>p_id = ''p1'', p_scheduleId = ''s1'', p_name = ''Karthik S'',
       p_timeZone = ''Asia/Kolkata'', p_availabilityJson = Some ''{}'',
       p_createdAt = 1100\<rparr>, astra] \<and>
   upsertSuggestion
     \<lparr>ug_id = Some ''g1'', ug_scheduleId = ''s1'', ug_suggestedStartUtc = 5500,
      ug_suggestedEndUtc = 6500, ug_participantsJson = None, ug_score = Some 80,
      ug_notes = None\<rparr> (signed_in ''alice'') env0 (db0\<lparr>ScheduleParticipants := [astra]\<rparr>) =
     (Inr [\<lparr>g_id = ''g1'', g_scheduleId = ''s1'', g_suggestedStartUtc = 5500,
            g_suggestedEndUtc = 6500, g_participantsJson = Some ''[]'', g_score = Some 80,
            g_notes = Some ''ok'', g_createdAt = 1200\<rparr>],
      \<lparr>Schedules = [alice_schedule\<lparr>s_updatedAt := 2001\<rparr>, bob_schedule],
       ScheduleParticipants = [astra],
       ScheduleSuggestions =
         [\<lparr>g_id = ''g1'', g_scheduleId = ''s1'', g_suggestedStartUtc = 5500,
           g_suggestedEndUtc = 6500, g_participantsJson = Some ''[]'', g_score = Some 80,
           g_notes = Some ''ok'', g_createdAt = 1200\<rparr>, window2]\<rparr>) \<and>
   list_all2
     (\<lambda>old new.
        new = (if g_id old = ''g1'' \<and> g_scheduleId old = ''s1''
               then \<lparr>g_id = g_id old, g_scheduleId = g_scheduleId old,
                     g_suggestedStartUtc = 5500, g_suggestedEndUtc = 6500,
                     g_participantsJson = g_participantsJson old, g_score = Some 80,
                     g_notes = g_notes old, g_createdAt = g_createdAt old\<rparr>
               else old))
     [window1, window2]
     [\<lparr>g_id = ''g1'', g_scheduleId = ''s1'', g_suggestedStartUtc = 5500,
       g_suggestedEndUtc = 6500, g_participantsJson = Some ''[]'', g_score = Some 80,
       g_notes = Some ''ok'', g_createdAt = 1200\<rparr>, window2]"
proof -
  let ?ip = "\<lparr>up_id = Some ''p1'', up_scheduleId = ''s1'', up_name = ''Karthik S'',
              up_timeZone = ''Asia/Kolkata'', up_availabilityJson = None\<rparr>"
  let ?ig = "\<lparr>ug_id = Some ''g1'', ug_scheduleId = ''s1'', ug_suggestedStartUtc = 5500,
              ug_suggestedEndUtc = 6500, ug_participantsJson = None, ug_score = Some 80,
              ug_notes = None\<rparr>"
  have okP: "upsertParticipant ?ip (signed_in ''alice'') env0
               (db0\<lparr>ScheduleSuggestions := [window2]\<rparr>) =
     (Inr [\<lparr>p_id = ''p1'', p_scheduleId = ''s1'', p_name = ''Karthik S'',
            p_timeZone = ''Asia/Kolkata'', p_availabilityJson = Some ''{}'',
            p_createdAt = 1100\<rparr>],
      \<lparr>Schedules = [alice_schedule\<lparr>s_updatedAt := 2001\<rparr>, bob_schedule],
       ScheduleParticipants =
         [\<lparr>p_id = ''p1'', p_scheduleId = ''s1'', p_name = ''Karthik S'',
           p_timeZone = ''Asia/Kolkata'', p_availabilityJson = Some ''{}'',
           p_createdAt = 1100\<rparr>, astra],
       ScheduleSuggestions = [window2]\<rparr>)"
    by (simp add: upsertParticipant_def defineAction_def z_object_def
        upsertParticipant_schema_def min1_def upsertParticipant_handler_def requireUser_def
        getOwnedSchedule_def db_select_def upsertParticipant_write_def truthy_def first_row_def
        participant_set_def set_optional_def touchScheduleUpdatedAt_def db_update_def
        example_defs)
  have okG: "upsertSuggestion ?ig (signed_in ''alice'') env0
               (db0\<lparr>ScheduleParticipants := [astra]\<rparr>) =
     (Inr [\<lparr>g_id = ''g1'', g_scheduleId = ''s1'', g_suggestedStartUtc = 5500,
            g_suggestedEndUtc = 6500, g_participantsJson = Some ''[]'', g_score = Some 80,
            g_notes = Some ''ok'', g_createdAt = 1200\<rparr>],
      \<lparr>Schedules = [alice_schedule\<lparr>s_updatedAt := 2001\<rparr>, bob_schedule],
       ScheduleParticipants = [astra],
       ScheduleSuggestions =
         [\<lparr>g_id = ''g1'', g_scheduleId = ''s1'', g_suggestedStartUtc = 5500,
           g_suggestedEndUtc = 6500, g_participantsJson = Some ''[]'', g_score = Some 80,
           g_notes = Some ''ok'', g_createdAt = 1200\<rparr>, window2]\<rparr>)"
    by (simp add: upsertSuggestion_def defineAction_def z_object_def
        upsertSuggestion_schema_def min1_def optional_def score_ok_def isInteger_def
        upsertSuggestion_handler_def requireUser_def
        getOwnedSchedule_def db_select_def upsertSuggestion_write_def truthy_def first_row_def
        suggestion_set_def set_optional_def touchScheduleUpdatedAt_def db_update_def
        example_defs)
  have hP: "upsertParticipant ?ip (signed_in ''alice'') env0
               (db0\<lparr>ScheduleSuggestions := [window2]\<rparr>) =
     (Inr [\<lparr>p_id = ''p1'', p_scheduleId = ''s1'', p_name = ''Karthik S'',
            p_timeZone = ''Asia/Kolkata'', p_availabilityJson = Some ''{}'',
            p_createdAt = 1100\<rparr>],
      \<lparr>Schedules = [alice_schedule\<lparr>s_updatedAt := 2001\<rparr>, bob_schedule],
       ScheduleParticipants =
         [\<lparr>p_id = ''p1'', p_scheduleId = ''s1'', p_name = ''Karthik S'',
           p_timeZone = ''Asia/Kolkata'', p_availabilityJson = Some ''{}'',
           p_createdAt = 1100\<rparr>, astra],
       ScheduleSuggestions = [window2]\<rparr>) \<and> up_id ?ip = Some ''p1'' \<and> ''p1'' \<noteq> []"
    using okP by simp
  have hG: "upsertSuggestion ?ig (signed_in ''alice'') env0
               (db0\<lparr>ScheduleParticipants := [astra]\<rparr>) =
     (Inr [\<lparr>g_id = ''g1'', g_scheduleId = ''s1'', g_suggestedStartUtc = 5500,
            g_suggestedEndUtc = 6500, g_participantsJson = Some ''[]'', g_score = Some 80,
            g_notes = Some ''ok'', g_createdAt = 1200\<rparr>],
      \<lparr>Schedules = [alice_schedule\<lparr>s_updatedAt := 2001\<rparr>, bob_schedule],
       ScheduleParticipants = [astra],
       ScheduleSuggestions =
         [\<lparr>g_id = ''g1'', g_scheduleId = ''s1'', g_suggestedStartUtc = 5500,
           g_suggestedEndUtc = 6500, g_participantsJson = Some ''[]'', g_score = Some 80,
           g_notes = Some ''ok'', g_createdAt = 1200\<rparr>, window2]\<rparr>) \<and> ug_id ?ig = Some ''g1'' \<and> ''g1'' \<noteq> []"
    using okG by simp
  have rowsP: "list_all2
     (\<lambda>old new.
        new = (if p_id old = ''p1'' \<and> p_scheduleId old = ''s1''
               then \<lparr>p_id = p_id old, p_scheduleId = p_scheduleId old,
                     p_name = ''Karthik S'', p_timeZone = ''Asia/Kolkata'',
                     p_availabilityJson = p_availabilityJson old,
                     p_createdAt = p_createdAt old\<rparr>
               else old))
     [karthik, astra]
     [\<lparr>p_id = ''p1'', p_scheduleId = ''s1'', p_name = ''Karthik S'',
       p_timeZone = ''Asia/Kolkata'', p_availabilityJson = Some ''{}'',
       p_createdAt = 1100\<rparr>, astra]"
    using upsert_update_keeps_omitted_fields [THEN conjunct1, THEN mp, OF hP]
    by (simp add: db0_def karthik_def astra_def)
  have rowsG: "list_all2
     (\<lambda>old new.
        new = (if g_id old = ''g1'' \<and> g_scheduleId old = ''s1''
               then \<lparr>g_id = g_id old, g_scheduleId = g_scheduleId old,
                     g_suggestedStartUtc = 5500, g_suggestedEndUtc = 6500,
                     g_participantsJson = g_participantsJson old, g_score = Some 80,
                     g_notes = g_notes old, g_createdAt = g_createdAt old\<rparr>
               else old))
     [window1, window2]
     [\<lparr>g_id = ''g1'', g_scheduleId = ''s1'', g_suggestedStartUtc = 5500,
       g_suggestedEndUtc = 6500, g_participantsJson = Some ''[]'', g_score = Some 80,
       g_notes = Some ''ok'', g_createdAt = 1200\<rparr>, window2]"
    using upsert_update_keeps_omitted_fields [THEN conjunct2, THEN mp, OF hG]
    by (simp add: db0_def window1_def window2_def)
  from okP rowsP okG rowsG show ?thesis by (intro conjI)
qed

text \<open>
  Claim C10 as stated fails for an omitted optional field. The participant p1 of Alice's
  schedule s1 has the availabilityJson \<open>''{}''\<close>; Alice updates p1 by id with an input that
  omits availabilityJson. The call succeeds and the stored row still has the
  availabilityJson \<open>''{}''\<close>: the field is not written as absent.
\<close>

theorem upsert_omitted_field_counterexample:
  "p_id karthik = ''p1'' \<and> p_availabilityJson karthik = Some ''{}'' \<and>
   upsertParticipant
     \<lparr>up_id = Some ''p1'', up_scheduleId = ''s1'', up_name = ''Karthik S'',
      up_timeZone = ''Asia/Kolkata'', up_availabilityJson = None\<rparr>
     (signed_in ''alice'') env0 db0 =
     (Inr [\<lparr>p_id = ''p1'', p_scheduleId = ''s1'', p_name = ''Karthik S'',
            p_timeZone = ''Asia/Kolkata'', p_availabilityJson = Some ''{}'',
            p_createdAt = 1100\<rparr>],
      \<lparr>Schedules = [alice_schedule\<lparr>s_updatedAt := 2001\<rparr>, bob_schedule],
       ScheduleParticipants =
         [\<lparr>p_id = ''p1'', p_scheduleId = ''s1'', p_name = ''Karthik S'',
           p_timeZone = ''Asia/Kolkata'', p_availabilityJson = Some ''{}'',
           p_createdAt = 1100\<rparr>, astra],
       ScheduleSuggestions = [window1, window2]\<rparr>) \<and>
   p_availabilityJson
     (hd (ScheduleParticipants (snd (upsertParticipant
        \<lparr>up_id = Some ''p1'', up_scheduleId = ''s1'', up_name = ''Karthik S'',
         up_timeZone = ''Asia/Kolkata'', up_availabilityJson = None\<rparr>
        (signed_in ''alice'') env0 db0)))) \<noteq> None"
  by (simp add: upsertParticipant_def defineAction_def z_object_def
      upsertParticipant_schema_def min1_def upsertParticipant_handler_def requireUser_def
      getOwnedSchedule_def db_select_def upsertParticipant_write_def truthy_def first_row_def
      participant_set_def set_optional_def touchScheduleUpdatedAt_def db_update_def
      example_defs)

section \<open>listMySchedules\<close>

lemma listMySchedules_never_succeeds:
  "listMySchedules raw ctx e d = (Inl ActionInputError, d) \<or>
   listMySchedules raw ctx e d =
     (Inl (ActionError UNAUTHORIZED ''You must be signed in to perform this action.''), d) \<or>
   listMySchedules raw ctx e d = (Inl TypeError, d)"
  by (simp add: listMySchedules_def defineAction_def listMySchedules_handler_def
      listMySchedules_body_def db_fn_def requireUser_def Let_def
      split: option.splits)

text \<open>
  What the handler is written to return. With the count aggregate in the place of
  \<^verbatim>\<open>db.fn.count\<close>, the body returns the caller's schedules in store order, without the
  first (page - 1) * pageSize of them and cut to pageSize, the number of the caller's
  schedules as total, and the page and pageSize it was given.
\<close>

lemma listMySchedules_body_page:
  assumes caller: "locals_user ctx = Some usr"
    and pg: "page input = of_nat p" "1 \<le> p"
    and ps: "pageSize input = of_nat n"
  shows "listMySchedules_body (Some (\<lambda>rows. of_nat (length rows))) input ctx e d =
           (Inr \<lparr>items = take n (drop ((p - 1) * n)
                             (filter (\<lambda>s. s_ownerUserId s = user_id usr) (Schedules d))),
                  total = of_nat (length (filter (\<lambda>s. s_ownerUserId s = user_id usr) (Schedules d))),
                  echo_page = of_nat p, echo_pageSize = of_nat n\<rparr>, d)"
proof -
  have "(page input - 1) * pageSize input = of_nat ((p - 1) * n)"
    using pg ps by (simp add: of_nat_diff)
  then have off: "nat \<lfloor>(page input - 1) * pageSize input\<rfloor> = (p - 1) * n"
    by (simp only: floor_of_nat nat_int)
  have lim: "nat \<lfloor>pageSize input\<rfloor> = n"
    by (simp add: ps)
  show ?thesis
    using caller unfolding listMySchedules_body_def Let_def off lim
    by (simp add: requireUser_def db_select_def pg ps)
qed

lemma listMySchedules_body_page_example:
  assumes "locals_user ctx = Some usr"
    and "length (filter (\<lambda>s. s_ownerUserId s = user_id usr) (Schedules d)) = 25"
    and "listMySchedules_body (Some (\<lambda>rows. of_nat (length rows)))
           \<lparr>page = 2, pageSize = 10\<rparr> ctx e d = (Inr r, d')"
  shows "length (items r) = 10 \<and> total r = 25"
proof -
  have "page \<lparr>page = 2, pageSize = 10\<rparr> = of_nat 2" "pageSize \<lparr>page = 2, pageSize = 10\<rparr> = of_nat 10"
    by simp_all
  from listMySchedules_body_page [OF assms(1) this(1) _ this(2), of e d] assms(2,3)
  show ?thesis by auto
qed

text \<open>
  Claim C7 fails on the code as it is. \<^verbatim>\<open>db.fn\<close> is \<^verbatim>\<open>undefined\<close> on the client of
  astro:db, so for a signed-in caller and a well-formed input, here page 2 with pageSize
  10, the handler throws a TypeError when it builds the count query, whatever the store
  holds: no items, total, page or pageSize is returned.
\<close>

theorem listMySchedules_throws:
  "listMySchedules \<lparr>lm_page = Some 2, lm_pageSize = Some 10\<rparr> (signed_in uid) e d =
     (Inl TypeError, d)"
  by (simp add: listMySchedules_def defineAction_def listMySchedules_schema_def z_default_def
      int_positive_def isInteger_def listMySchedules_handler_def listMySchedules_body_def
      db_fn_def requireUser_def signed_in_def Let_def)

section \<open>The primary keys are an invariant of the actions\<close>

text \<open>
  The theorems on the ownership guard and on the cascade assume that the ids of a table
  are distinct. The empty store has that property and every action keeps it: an insert
  whose id is taken is refused by the store, an update never writes an id, a delete only
  removes rows.
\<close>

lemma primary_keys_empty:
  "primary_keys \<lparr>Schedules = [], ScheduleParticipants = [], ScheduleSuggestions = []\<rparr>"
  by (simp add: primary_keys_def)

lemma keys_update: "(\<And>r. key (st r) = key r) \<Longrightarrow> map key (db_update st wh rows) = map key rows"
  by (simp add: db_update_def o_def cong: map_cong)

lemma keys_delete: "distinct (map key rows) \<Longrightarrow> distinct (map key (db_delete wh rows))"
  by (simp add: db_delete_def distinct_map_filter)

lemma keys_insert:
  "distinct (map key rows) \<Longrightarrow> db_insert key r rows = Inr rows' \<Longrightarrow> distinct (map key rows')"
  by (auto simp: db_insert_def split: if_splits)

lemma touch_keys:
  "map (s_id \<circ> (\<lambda>s. if s_id s = sid then s\<lparr>s_updatedAt := now\<rparr> else s)) rows = map s_id rows"
  by (induction rows) auto

lemma touch_primary_keys:
  "primary_keys d \<Longrightarrow> primary_keys (touchScheduleUpdatedAt sid now d)"
  by (simp add: primary_keys_def touch_keys)

lemma write_primary_keys:
  "primary_keys d \<Longrightarrow> upsertParticipant_write ip e d = Inr d1 \<Longrightarrow> primary_keys d1"
  "primary_keys d \<Longrightarrow> upsertSuggestion_write ig e d = Inr d2 \<Longrightarrow> primary_keys d2"
  by (auto simp: primary_keys_def upsertParticipant_write_def upsertSuggestion_write_def Let_def
      keys_update participant_set_def suggestion_set_def
      split: option.splits sum.splits dest: keys_insert)

lemma actions_keep_primary_keys:
  assumes "primary_keys d"
  shows "primary_keys (snd (createSchedule i1 ctx e d))"
    and "primary_keys (snd (updateSchedule i2 ctx e d))"
    and "primary_keys (snd (deleteSchedule i3 ctx e d))"
    and "primary_keys (snd (listMySchedules i4 ctx e d))"
    and "primary_keys (snd (getScheduleWithDetails i5 ctx e d))"
    and "primary_keys (snd (upsertParticipant i6 ctx e d))"
    and "primary_keys (snd (deleteParticipant i7 ctx e d))"
    and "primary_keys (snd (upsertSuggestion i8 ctx e d))"
    and "primary_keys (snd (deleteSuggestion i9 ctx e d))"
proof -
  show "primary_keys (snd (createSchedule i1 ctx e d))"
    using assms
    by (auto simp: createSchedule_def defineAction_def z_object_def createSchedule_handler_def
        Let_def primary_keys_def split: option.splits sum.splits dest: keys_insert)
  show "primary_keys (snd (updateSchedule i2 ctx e d))"
    using assms
    by (auto simp: updateSchedule_def defineAction_def z_object_def updateSchedule_handler_def
        Let_def primary_keys_def keys_update updateData_def split: option.splits sum.splits)
  show "primary_keys (snd (deleteSchedule i3 ctx e d))"
    using assms
    by (auto simp: deleteSchedule_def defineAction_def z_object_def deleteSchedule_handler_def
        deleteSchedule_statements_def Let_def primary_keys_def keys_delete
        split: option.splits sum.splits)
  show "primary_keys (snd (listMySchedules i4 ctx e d))"
    using assms listMySchedules_never_succeeds [of i4 ctx e d] by auto
  show "primary_keys (snd (getScheduleWithDetails i5 ctx e d))"
    using assms
    by (auto simp: getScheduleWithDetails_def defineAction_def z_object_def
        getScheduleWithDetails_handler_def Let_def split: option.splits sum.splits)
  show "primary_keys (snd (upsertParticipant i6 ctx e d))"
    using assms
    by (auto simp: upsertParticipant_def defineAction_def z_object_def
        upsertParticipant_handler_def Let_def
        split: option.splits sum.splits intro!: touch_primary_keys dest: write_primary_keys(1))
  show "primary_keys (snd (deleteParticipant i7 ctx e d))"
    using assms
    by (auto simp: deleteParticipant_def defineAction_def z_object_def
        deleteParticipant_handler_def Let_def primary_keys_def keys_delete touch_keys
        split: option.splits sum.splits)
  show "primary_keys (snd (upsertSuggestion i8 ctx e d))"
    using assms
    by (auto simp: upsertSuggestion_def defineAction_def z_object_def
        upsertSuggestion_handler_def Let_def
        split: option.splits sum.splits intro!: touch_primary_keys dest: write_primary_keys(2))
  show "primary_keys (snd (deleteSuggestion i9 ctx e d))"
    using assms
    by (auto simp: deleteSuggestion_def defineAction_def z_object_def
        deleteSuggestion_handler_def Let_def primary_keys_def keys_delete touch_keys
        split: option.splits sum.splits)
qed

end
